theory Spec2Isabelle
  imports Main "HOL-Library.AList"
begin

section \<open>Data model\<close>

text \<open>
  The pipeline stages exchange JSON objects. An object is modelled by its \<open>id\<close> entry
  (\<open>ident\<close>, \<open>None\<close> when the key is missing or null, the value \<open>d.get("id")\<close>
  returns) and by its remaining entries in insertion order. Identifiers are the integers
  that step 1.1 assigns. An exception is modelled by its message \<open>str(e)\<close>.
\<close>

datatype jval = JStr string | JStrs "string list"

record pydict =
  ident :: "int option"
  entries :: "(string \<times> jval) list"

type_synonym exn = string

text \<open>\<open>k in d\<close> for a key other than \<open>id\<close>.\<close>

definition has_key :: "pydict \<Rightarrow> string \<Rightarrow> bool" where
  "has_key d k = (map_of (entries d) k \<noteq> None)"

text \<open>
  The in-memory \<open>results\<close> dictionary: a Python dict keeps insertion order, assignment
  to an existing key keeps the key's position, a new key goes to the end.
\<close>

type_synonym results = "(int option \<times> pydict) list"

definition contains :: "results \<Rightarrow> int option \<Rightarrow> bool" where
  "contains res k = (map_of res k \<noteq> None)"

definition setitem :: "results \<Rightarrow> int option \<Rightarrow> pydict \<Rightarrow> results" where
  "setitem res k v = AList.update k v res"

definition values_of :: "results \<Rightarrow> pydict list" where
  "values_of res = map snd res"

section \<open>Strings and outcomes\<close>

text \<open>
  A call returns a value, raises an exception, or never returns (a thread blocked on a
  lock that is never released, a polling loop whose job never ends).
\<close>

datatype 'a outcome = Returns 'a | Raises exn | Hangs

definition and_then :: "'a outcome \<Rightarrow> ('a \<Rightarrow> 'b outcome) \<Rightarrow> 'b outcome" where
  "and_then m f = (case m of Returns x \<Rightarrow> f x | Raises e \<Rightarrow> Raises e | Hangs \<Rightarrow> Hangs)"

text \<open>\<open>str.isspace\<close> on the ASCII range, which is also what \<open>\s\<close> matches there.\<close>

definition isspace :: "char \<Rightarrow> bool" where
  "isspace c = (c \<in> set [CHR '' '', CHR 0x09, CHR 0x0A, CHR 0x0B, CHR 0x0C, CHR 0x0D,
                          CHR 0x1C, CHR 0x1D, CHR 0x1E, CHR 0x1F])"

definition lstrip :: "string \<Rightarrow> string" where
  "lstrip s = dropWhile isspace s"

definition rstrip :: "string \<Rightarrow> string" where
  "rstrip s = rev (dropWhile isspace (rev s))"

definition strip :: "string \<Rightarrow> string" where
  "strip s = rstrip (lstrip s)"

definition lower_char :: "char \<Rightarrow> char" where
  "lower_char c =
     (case map_of (zip ''ABCDEFGHIJKLMNOPQRSTUVWXYZ'' ''abcdefghijklmnopqrstuvwxyz'') c of
        None \<Rightarrow> c
      | Some l \<Rightarrow> l)"

definition lower :: "string \<Rightarrow> string" where
  "lower s = map lower_char s"

fun startswith :: "string \<Rightarrow> string \<Rightarrow> bool" where
  "startswith s [] = True"
| "startswith [] (p # ps) = False"
| "startswith (c # cs) (p # ps) = (c = p \<and> startswith cs ps)"

text \<open>\<open>s.find(sub)\<close>: the first position where \<open>sub\<close> occurs, \<open>None\<close> for Python's -1.\<close>

fun str_find :: "string \<Rightarrow> string \<Rightarrow> nat option" where
  "str_find [] sub = (if sub = [] then Some 0 else None)"
| "str_find (c # cs) sub =
     (if startswith (c # cs) sub then Some 0 else map_option Suc (str_find cs sub))"

text \<open>\<open>sub in s\<close>.\<close>

definition str_contains :: "string \<Rightarrow> string \<Rightarrow> bool" where
  "str_contains sub s = (str_find s sub \<noteq> None)"

text \<open>
  \<open>re.search(otag + "(.*?)" + ctag, txt, re.DOTALL)\<close> for literal tags: the leftmost
  opening tag that has a closing tag after it is the first opening tag, and the lazy group
  ends at the first closing tag that follows. The result is \<open>group(1)\<close>, \<open>None\<close> when
  there is no match.
\<close>

definition re_search_group :: "string \<Rightarrow> string \<Rightarrow> string \<Rightarrow> string option" where
  "re_search_group otag ctag txt =
     (case str_find txt otag of
        None \<Rightarrow> None
      | Some p \<Rightarrow>
          (let rest = drop (p + length otag) txt in
           case str_find rest ctag of
             None \<Rightarrow> None
           | Some c \<Rightarrow> Some (take c rest)))"

text \<open>
  The same search with \<open>\s*\<close> on both sides of the group, the pattern of step1.2: the
  greedy \<open>\s*\<close> after the opening tag takes all the white space there, the lazy group
  stops as early as the second \<open>\s*\<close> and the closing tag allow, so \<open>group(1)\<close> is the
  text between the tags without its surrounding white space.
\<close>

definition re_search_group_ws :: "string \<Rightarrow> string \<Rightarrow> string \<Rightarrow> string option" where
  "re_search_group_ws otag ctag txt = map_option (\<lambda>g. rstrip (lstrip g)) (re_search_group otag ctag txt)"

text \<open>The content blocks of a provider message: text blocks and blocks of other types.\<close>

datatype block = TextBlock string | OtherBlock

text \<open>\<open>"".join(c.text for c in content if c.type == "text")\<close>.\<close>

fun join_text :: "block list \<Rightarrow> string" where
  "join_text [] = []"
| "join_text (TextBlock t # bs) = t @ join_text bs"
| "join_text (OtherBlock # bs) = join_text bs"

section \<open>Resume planner\<close>

text \<open>
  step1.2, \<open>main\<close>: an input item is skipped when its id is a key of \<open>results\<close> and the
  stored record has a \<open>translation\<close> or an \<open>error\<close> entry.
\<close>

definition already_done_rewrite :: "results \<Rightarrow> int option \<Rightarrow> bool" where
  "already_done_rewrite res k =
     (case map_of res k of
        None \<Rightarrow> False
      | Some r \<Rightarrow> has_key r ''translation'' \<or> has_key r ''error'')"

definition items_to_process_rewrite :: "pydict list \<Rightarrow> results \<Rightarrow> pydict list" where
  "items_to_process_rewrite data res =
     [item \<leftarrow> data. \<not> already_done_rewrite res (ident item)]"

text \<open>
  step1.4, \<open>process_batch\<close>: \<open>[d for d in data if d.get("id") not in self.results]\<close>.
\<close>

definition items_to_process_verify :: "pydict list \<Rightarrow> results \<Rightarrow> pydict list" where
  "items_to_process_verify data res = [d \<leftarrow> data. \<not> contains res (ident d)]"

text \<open>
  The planner as the specification words it: a record is resolved when it carries a
  success payload (the entry \<open>succ\<close> of the stage) or an \<open>error\<close> entry, and the pending
  items are the input items, in input order, whose id does not map to a resolved record.
\<close>

definition spec_resolved :: "string \<Rightarrow> pydict \<Rightarrow> bool" where
  "spec_resolved succ r = (has_key r succ \<or> has_key r ''error'')"

definition spec_pending :: "string \<Rightarrow> pydict list \<Rightarrow> results \<Rightarrow> pydict list" where
  "spec_pending succ data res =
     [item \<leftarrow> data.
        \<not> (case map_of res (ident item) of None \<Rightarrow> False | Some r \<Rightarrow> spec_resolved succ r)]"

section \<open>Retry with backoff\<close>

text \<open>
  The keyword arguments of the \<open>backoff.on_exception\<close> decorator. \<open>jitter\<close> turns the
  value of the wait generator into the seconds to sleep, \<open>None\<close> when the decorator is
  given \<open>jitter=None\<close>; its first argument is the number of the failed call.
\<close>

record retry_config =
  max_tries :: nat
  base :: nat
  max_time :: nat
  jitter :: "(nat \<Rightarrow> nat \<Rightarrow> nat) option"
  giveup :: "exn \<Rightarrow> bool"

text \<open>
  The sleep after the failure of call \<open>tries\<close>: the value \<open>base ^ (tries - 1)\<close> of the
  exponential generator, passed through the jitter, and cut to what is left of the budget.
\<close>

definition next_wait :: "retry_config \<Rightarrow> (nat \<Rightarrow> nat) \<Rightarrow> nat \<Rightarrow> nat" where
  "next_wait cfg clock tries =
     (let value = base cfg ^ (tries - 1);
          seconds = (case jitter cfg of None \<Rightarrow> value | Some j \<Rightarrow> j tries value)
      in min seconds (max_time cfg - clock tries))"

text \<open>
  Modelled from the spec: the retry loop of the \<open>backoff\<close> decorator, whose package is not
  among the sources. The specification gives it a retry ceiling, a base multiplier, a
  wall-clock budget and a classification of the failure: the call is repeated after a
  failure unless the failure is classified as not retryable, the ceiling of attempts is
  reached or the budget is used up, and then the exception goes to the caller. Before the
  next attempt the loop sleeps \<open>next_wait\<close> seconds. \<open>target n\<close> is the outcome of the
  \<open>n\<close>-th call and \<open>clock n\<close> the seconds elapsed since the first call when the \<open>n\<close>-th
  call has failed. The result comes with the waits made, so \<open>length waits + 1\<close> calls
  were made.
\<close>

function on_exception ::
  "retry_config \<Rightarrow> (nat \<Rightarrow> nat) \<Rightarrow> (nat \<Rightarrow> exn + 'a) \<Rightarrow> nat \<Rightarrow> nat list \<Rightarrow> (exn + 'a) \<times> nat list"
where
  "on_exception cfg clock target tries waits =
     (case target tries of
        Inr ret \<Rightarrow> (Inr ret, waits)
      | Inl e \<Rightarrow>
          if giveup cfg e \<or> max_tries cfg \<le> tries \<or> max_time cfg \<le> clock tries
          then (Inl e, waits)
          else on_exception cfg clock target (Suc tries)
                 (waits @ [next_wait cfg clock tries]))"
  by pat_completeness auto
termination
  by (relation "measure (\<lambda>(cfg, clock, target, tries, waits). max_tries cfg - tries)") auto

text \<open>
  step1.2: \<open>max_tries=8, base=2, max_time=300\<close>, and \<open>giveup\<close> for every exception whose
  lower-cased text does not contain \<open>rate_limit_error\<close>. No \<open>jitter\<close> is given, so the
  default applies, the full jitter \<open>random.uniform(0, value)\<close>; \<open>draw n\<close> is what
  \<open>random\<close> yields after the failure of call \<open>n\<close>, in seconds.
\<close>

definition translate_retry_config :: "(nat \<Rightarrow> nat) \<Rightarrow> retry_config" where
  "translate_retry_config draw =
     \<lparr>max_tries = 8, base = 2, max_time = 300,
      jitter = Some (\<lambda>n value. min (draw n) value),
      giveup = (\<lambda>e. \<not> str_contains ''rate_limit_error'' (lower e))\<rparr>"

text \<open>
  step1.4: \<open>max_tries=8, base=2, jitter=None, max_time=300\<close> and no \<open>giveup\<close>: every
  exception that leaves \<open>analyze_puzzle\<close> is retried.
\<close>

definition analyze_retry_config :: retry_config where
  "analyze_retry_config =
     \<lparr>max_tries = 8, base = 2, max_time = 300, jitter = None, giveup = (\<lambda>e. False)\<rparr>"

section \<open>Checkpoint store\<close>

text \<open>
  A path is its directory, the stem of its file name and the suffix. The file system holds
  the directories that exist and the files; a file holds a JSON array of objects or
  anything else (empty, not JSON, not an array).
\<close>

record path =
  parent :: string
  stem :: string
  suffix :: string

datatype content = Json "pydict list" | Corrupt

record filesystem =
  dirs :: "string set"
  files :: "path \<Rightarrow> content option"

text \<open>\<open>open(p, "w")\<close> and \<open>json.dump\<close>: the file is replaced; a missing directory raises.\<close>

definition open_write :: "filesystem \<Rightarrow> path \<Rightarrow> pydict list \<Rightarrow> exn + filesystem" where
  "open_write f p recs =
     (if parent p \<in> dirs f then Inr (f\<lparr>files := (files f)(p \<mapsto> Json recs)\<rparr>)
      else Inl ''[Errno 2] No such file or directory'')"

text \<open>\<open>Path(p).parent.mkdir(parents=True, exist_ok=True)\<close>.\<close>

definition mkdir_parent :: "filesystem \<Rightarrow> path \<Rightarrow> filesystem" where
  "mkdir_parent f p = f\<lparr>dirs := insert (parent p) (dirs f)\<rparr>"

text \<open>\<open>Path(src).rename(dst)\<close>.\<close>

definition rename :: "filesystem \<Rightarrow> path \<Rightarrow> path \<Rightarrow> exn + filesystem" where
  "rename f src dst =
     (case files f src of
        None \<Rightarrow> Inl ''[Errno 2] No such file or directory''
      | Some c \<Rightarrow>
          if parent dst \<in> dirs f then Inr (f\<lparr>files := ((files f)(src := None))(dst \<mapsto> c)\<rparr>)
          else Inl ''[Errno 2] No such file or directory'')"

text \<open>
  The state shared by the workers of a run: the \<open>results\<close> dictionary, the lock (\<open>True\<close>
  while a thread holds it), the counter of step1.2 and the file system.
\<close>

record state =
  results :: results
  lock :: bool
  processed_since_last_save :: int
  fs :: filesystem

text \<open>
  \<open>with lock:\<close> for a \<open>threading.Lock\<close>, which is not reentrant: acquiring a lock that is
  held blocks until it is released, and a thread that holds it and acquires it again blocks
  for ever. An exception in the body releases the lock.
\<close>

definition with_lock :: "(state \<Rightarrow> ('a \<times> state) outcome) \<Rightarrow> state \<Rightarrow> ('a \<times> state) outcome" where
  "with_lock body s =
     (if lock s then Hangs
      else and_then (body (s\<lparr>lock := True\<rparr>)) (\<lambda>(x, s'). Returns (x, s'\<lparr>lock := False\<rparr>)))"

text \<open>
  The array that a save writes: the records of \<open>results\<close> that have an id, sorted by id
  (\<open>sorted\<close> is stable).
\<close>

definition sorted_results :: "results \<Rightarrow> pydict list" where
  "sorted_results res = sort_key (\<lambda>x. the (ident x)) [r \<leftarrow> values_of res. ident r \<noteq> None]"

text \<open>
  Loading in step1.2 and step1.4: a missing, empty or unreadable file leaves \<open>results\<close>
  empty; records without id are skipped.
\<close>

definition load_records :: "pydict list \<Rightarrow> results \<Rightarrow> results" where
  "load_records recs res =
     fold (\<lambda>rec acc. if ident rec \<noteq> None then setitem acc (ident rec) rec else acc) recs res"

definition load :: "filesystem \<Rightarrow> path \<Rightarrow> results \<Rightarrow> results" where
  "load f p res =
     (case files f p of
        None \<Rightarrow> res
      | Some Corrupt \<Rightarrow> res
      | Some (Json recs) \<Rightarrow> load_records recs res)"

text \<open>
  Loading in step1.6 and step1.8: \<open>self.results[rec["id"]] = rec\<close> raises at the first
  record without id, the exception is caught and the records read so far stay.
\<close>

definition load_batch :: "filesystem \<Rightarrow> path \<Rightarrow> results \<Rightarrow> results" where
  "load_batch f p res =
     (case files f p of
        None \<Rightarrow> res
      | Some Corrupt \<Rightarrow> res
      | Some (Json recs) \<Rightarrow> load_records (takeWhile (\<lambda>rec. ident rec \<noteq> None) recs) res)"

section \<open>The environment of a run\<close>

text \<open>An entry of a provider batch result: the custom id, the message of a succeeded
  request (\<open>None\<close> when the entry has no \<open>result.message\<close>) and the text of its error.\<close>

record batch_entry =
  custom_id :: int
  message :: "block list option"
  error_text :: string

text \<open>
  What a run reads from outside: the rendering of the prompt templates, the existence of
  image files, the outcome of the \<open>n\<close>-th call of \<open>client.messages.create\<close> for a
  prompt, the seconds elapsed when that call has failed, the random draw of the jitter
  after that failure, and the provider's batch interface
  (creation of a job from the requests, the status at the \<open>n\<close>-th poll, the entries of the
  ended job).
\<close>

record env =
  format_template :: "jval \<Rightarrow> exn + string"
  path_exists :: "string \<Rightarrow> bool"
  build_prompt :: "pydict \<Rightarrow> exn + string"
  messages_create :: "string \<Rightarrow> nat \<Rightarrow> exn + block list"
  elapsed :: "string \<Rightarrow> nat \<Rightarrow> nat"
  uniform :: "string \<Rightarrow> nat \<Rightarrow> nat"
  elapsed_item :: "pydict \<Rightarrow> nat \<Rightarrow> nat"
  batches_create :: "(int \<times> string) list \<Rightarrow> exn + string"
  batches_retrieve :: "string \<Rightarrow> nat \<Rightarrow> exn + string"
  batches_results :: "string \<Rightarrow> exn + batch_entry list"

text \<open>\<open>d.get(k, "")\<close>.\<close>

definition get_or_empty :: "pydict \<Rightarrow> string \<Rightarrow> jval" where
  "get_or_empty d k = (case map_of (entries d) k of None \<Rightarrow> JStr [] | Some v \<Rightarrow> v)"

text \<open>The tasks of a pool, each run to its end, in the order \<open>xs\<close>.\<close>

fun run_tasks :: "('a \<Rightarrow> state \<Rightarrow> state outcome) \<Rightarrow> 'a list \<Rightarrow> state \<Rightarrow> state outcome" where
  "run_tasks task [] s = Returns s"
| "run_tasks task (x # xs) s = and_then (task x s) (run_tasks task xs)"

section \<open>step1.2: rewriting with a thread pool\<close>

text \<open>\<open>translate_with_retry\<close>: the decorated call of \<open>client.messages.create\<close>.\<close>

definition translate_with_retry :: "env \<Rightarrow> string \<Rightarrow> (exn + block list) \<times> nat list" where
  "translate_with_retry ev prompt =
     on_exception (translate_retry_config (uniform ev prompt)) (elapsed ev prompt)
       (messages_create ev prompt) 1 []"

text \<open>\<open>message.content[0].text\<close>.\<close>

definition first_text :: "block list \<Rightarrow> exn + string" where
  "first_text content =
     (case content of
        [] \<Rightarrow> Inl ''list index out of range''
      | TextBlock t # _ \<Rightarrow> Inr t
      | OtherBlock # _ \<Rightarrow> Inl ''object has no attribute text'')"

text \<open>
  The parse of the response in \<open>translate_item_process\<close>: the translation, and whether the
  warning about the missing tag is printed.
\<close>

definition parse_response :: "string \<Rightarrow> string \<times> bool" where
  "parse_response response_text =
     (case re_search_group_ws ''<translated_explanation>'' ''</translated_explanation>''
             response_text of
        Some g \<Rightarrow> (strip g, False)
      | None \<Rightarrow> (strip response_text, True))"

text \<open>The statements of the \<open>try\<close> block up to the parsed translation.\<close>

definition translate_item :: "env \<Rightarrow> pydict \<Rightarrow> exn + string \<times> bool" where
  "translate_item ev item_data =
     (case format_template ev (get_or_empty item_data ''explanation'') of
        Inl e \<Rightarrow> Inl e
      | Inr prompt \<Rightarrow>
          (case fst (translate_with_retry ev prompt) of
             Inl e \<Rightarrow> Inl e
           | Inr content \<Rightarrow>
               (case first_text content of
                  Inl e \<Rightarrow> Inl e
                | Inr response_text \<Rightarrow> Inr (parse_response response_text))))"

definition intermediate_output_file :: "path \<Rightarrow> path" where
  "intermediate_output_file output = output\<lparr>stem := stem output @ ''_intermediate''\<rparr>"

text \<open>
  \<open>save_intermediate_results_local\<close>: the snapshot is taken under \<open>results_lock\<close>, the
  file is written without creating its directory, and an exception of the write is caught
  and reported, the counter staying as it is.
\<close>

definition save_intermediate_results_local :: "path \<Rightarrow> state \<Rightarrow> state outcome" where
  "save_intermediate_results_local intermediate s =
     and_then (with_lock (\<lambda>s1. Returns (sorted_results (results s1), s1)) s)
       (\<lambda>(all_items_in_memory_sorted, s1).
          case open_write (fs s1) intermediate all_items_in_memory_sorted of
            Inl e \<Rightarrow> Returns s1
          | Inr f \<Rightarrow> Returns (s1\<lparr>fs := f, processed_since_last_save := 0\<rparr>))"

text \<open>
  The block under \<open>with results_lock:\<close> that both branches of \<open>translate_item_process\<close>
  run: store the record, count it, and save when the counter has reached the interval.
\<close>

definition store_result :: "path \<Rightarrow> int \<Rightarrow> pydict \<Rightarrow> state \<Rightarrow> state outcome" where
  "store_result intermediate save_interval result s =
     and_then
       (with_lock
          (\<lambda>s1. let s2 = s1\<lparr>results := setitem (results s1) (ident result) result,
                            processed_since_last_save := processed_since_last_save s1 + 1\<rparr>
                in if save_interval \<le> processed_since_last_save s2
                   then and_then (save_intermediate_results_local intermediate s2)
                          (\<lambda>s3. Returns ((), s3))
                   else Returns ((), s2))
          s)
       (\<lambda>(u, s'). Returns s')"

definition translate_item_process ::
  "env \<Rightarrow> path \<Rightarrow> int \<Rightarrow> pydict \<Rightarrow> state \<Rightarrow> (pydict \<times> state) outcome"
where
  "translate_item_process ev intermediate save_interval item_data s =
     (case (if already_done_rewrite (results s) (ident item_data)
            then map_of (results s) (ident item_data) else None) of
        Some done \<Rightarrow> Returns (done, s)
      | None \<Rightarrow>
          (case translate_item ev item_data of
             Inr (translation, warned) \<Rightarrow>
               (let result = \<lparr>ident = ident item_data,
                              entries = [(''translation'', JStr translation)]\<rparr>
                in and_then (store_result intermediate save_interval result s)
                     (\<lambda>s'. Returns (result, s')))
           | Inl e \<Rightarrow>
               (let error_result = \<lparr>ident = ident item_data, entries = [(''error'', JStr e)]\<rparr>
                in and_then (store_result intermediate save_interval error_result s)
                     (\<lambda>s'. Returns (error_result, s')))))"

text \<open>\<open>shutil.copy2(src, dst)\<close>.\<close>

definition copy2 :: "filesystem \<Rightarrow> path \<Rightarrow> path \<Rightarrow> exn + filesystem" where
  "copy2 f src dst =
     (case files f src of
        None \<Rightarrow> Inl ''[Errno 2] No such file or directory''
      | Some c \<Rightarrow>
          if parent dst \<in> dirs f then Inr (f\<lparr>files := (files f)(dst \<mapsto> c)\<rparr>)
          else Inl ''[Errno 2] No such file or directory'')"

text \<open>
  The end of \<open>main\<close>: the intermediate file is renamed to the output path; an exception
  is caught and reported.
\<close>

definition finalize_output :: "path \<Rightarrow> path \<Rightarrow> filesystem \<Rightarrow> filesystem" where
  "finalize_output intermediate output f =
     (case rename f intermediate output of
        Inl e \<Rightarrow> f
      | Inr f1 \<Rightarrow>
          if files f1 intermediate \<noteq> None \<and> intermediate \<noteq> output
          then (case copy2 f1 intermediate output of Inl e \<Rightarrow> f1 | Inr f2 \<Rightarrow> f2)
          else f1)"

text \<open>
  \<open>main\<close> from the loading of the intermediate file on. \<open>order\<close> is the order in which
  the tasks of the pool run, a permutation of \<open>items_to_process\<close>; each task is taken as
  a whole, which is what the lock gives to the update of \<open>results\<close>. No task raises, so
  the handler around \<open>future.result()\<close> is never entered.
\<close>

definition main_rewrite ::
  "env \<Rightarrow> path \<Rightarrow> int \<Rightarrow> pydict list \<Rightarrow> pydict list \<Rightarrow> filesystem \<Rightarrow> state outcome"
where
  "main_rewrite ev output save_interval data order f =
     (let intermediate = intermediate_output_file output;
          s0 = \<lparr>results = load f intermediate [], lock = False,
                processed_since_last_save = 0, fs = f\<rparr>;
          items_to_process = items_to_process_rewrite data (results s0)
      in and_then
           (if items_to_process = [] then Returns s0
            else run_tasks
                   (\<lambda>item s. and_then (translate_item_process ev intermediate save_interval item s)
                                (\<lambda>(r, s'). Returns s'))
                   order s0)
           (\<lambda>s1. and_then (save_intermediate_results_local intermediate s1)
                   (\<lambda>s2. Returns (s2\<lparr>fs := finalize_output intermediate output (fs s2)\<rparr>))))"

section \<open>step1.4: verification with a thread pool\<close>

text \<open>\<open>str(i)\<close> for an integer, and for the value of \<open>item.get("id")\<close>.\<close>

fun digits :: "nat \<Rightarrow> string" where
  "digits n =
     (if n < 10 then [''0123456789'' ! n]
      else digits (n div 10) @ [''0123456789'' ! (n mod 10)])"

definition str_int :: "int \<Rightarrow> string" where
  "str_int i = (if i < 0 then CHR ''-'' # digits (nat (- i)) else digits (nat i))"

definition str_id :: "int option \<Rightarrow> string" where
  "str_id k = (case k of None \<Rightarrow> ''None'' | Some i \<Rightarrow> str_int i)"

text \<open>\<open>LogicPuzzleSolver.encode_image\<close>, as far as it can fail: the file must exist.\<close>

definition encode_image :: "env \<Rightarrow> string \<Rightarrow> exn + unit" where
  "encode_image ev p = (if path_exists ev p then Inr () else Inl (''Image not found: '' @ p))"

text \<open>The field of the result that a tag of the response fills: empty without the tag.\<close>

definition tag_or_empty :: "string \<Rightarrow> string \<Rightarrow> string" where
  "tag_or_empty tag txt =
     (case re_search_group (''<'' @ tag @ ''>'') (''</'' @ tag @ ''>'') txt of
        Some g \<Rightarrow> strip g
      | None \<Rightarrow> [])"

text \<open>The record that \<open>analyze_puzzle\<close> builds from the text of the response.\<close>

definition parse_answer :: "pydict \<Rightarrow> int \<Rightarrow> string \<Rightarrow> pydict" where
  "parse_answer item i response_text =
     \<lparr>ident = Some i,
      entries = [(''correct_answer'', get_or_empty item ''correct_answer''),
                 (''reasoning'', JStr (tag_or_empty ''reasoning'' response_text)),
                 (''answer'', JStr (tag_or_empty ''answer'' response_text)),
                 (''raw_response'', JStr response_text)]\<rparr>"

text \<open>
  The \<open>try\<close> block of \<open>analyze_puzzle\<close> in its \<open>n\<close>-th execution. \<open>item["id"]\<close> raises a
  \<open>KeyError\<close> for an item without id.
\<close>

definition analyze_puzzle_try :: "env \<Rightarrow> pydict \<Rightarrow> nat \<Rightarrow> exn + pydict" where
  "analyze_puzzle_try ev item n =
     (let missing = ''Missing image field or image path is empty for item ID: ''
                    @ str_id (ident item)
      in case map_of (entries item) ''image'' of
           None \<Rightarrow> Inl missing
         | Some (JStrs ps) \<Rightarrow>
             if ps = [] then Inl missing
             else Inl ''stat: path should be string, bytes, os.PathLike or integer, not list''
         | Some (JStr p) \<Rightarrow>
             if p = [] then Inl missing
             else (case encode_image ev p of
                     Inl e \<Rightarrow> Inl e
                   | Inr u \<Rightarrow>
                       (case build_prompt ev item of
                          Inl e \<Rightarrow> Inl e
                        | Inr content_payload \<Rightarrow>
                            (case messages_create ev content_payload n of
                               Inl e \<Rightarrow> Inl e
                             | Inr api_response \<Rightarrow>
                                 (case ident item of
                                    None \<Rightarrow> Inl ''id''
                                  | Some i \<Rightarrow>
                                      Inr (parse_answer item i (join_text api_response)))))))"

text \<open>
  The body of \<open>analyze_puzzle\<close> with its \<open>except\<close> clause: an exception whose text
  contains \<open>rate_limit_error\<close> is raised again, any other becomes an error record. The
  placeholder id \<open>UnknownID\<close> of an item without id is modelled by \<open>None\<close>; the worker
  stores no record for such an item.
\<close>

definition analyze_puzzle_body :: "env \<Rightarrow> pydict \<Rightarrow> nat \<Rightarrow> exn + pydict" where
  "analyze_puzzle_body ev item n =
     (case analyze_puzzle_try ev item n of
        Inr r \<Rightarrow> Inr r
      | Inl e \<Rightarrow>
          if str_contains ''rate_limit_error'' e then Inl e
          else Inr \<lparr>ident = ident item, entries = [(''error'', JStr e)]\<rparr>)"

text \<open>\<open>analyze_puzzle\<close> as decorated.\<close>

definition analyze_puzzle :: "env \<Rightarrow> pydict \<Rightarrow> (exn + pydict) \<times> nat list" where
  "analyze_puzzle ev item =
     on_exception analyze_retry_config (elapsed_item ev item) (analyze_puzzle_body ev item) 1 []"

text \<open>
  \<open>LogicPuzzleSolver._save\<close>: the snapshot is taken under \<open>self.lock\<close>; the directory
  is created and the file written after the lock is released; an exception of the write is
  caught and reported.
\<close>

definition LogicPuzzleSolver_save :: "path \<Rightarrow> state \<Rightarrow> state outcome" where
  "LogicPuzzleSolver_save p s =
     and_then (with_lock (\<lambda>s1. Returns (sorted_results (results s1), s1)) s)
       (\<lambda>(sorted_res, s1).
          let f1 = mkdir_parent (fs s1) p
          in case open_write f1 p sorted_res of
               Inl e \<Rightarrow> Returns (s1\<lparr>fs := f1\<rparr>)
             | Inr f2 \<Rightarrow> Returns (s1\<lparr>fs := f2\<rparr>))"

text \<open>
  \<open>worker\<close> in \<open>process_batch\<close>: an exception of \<open>analyze_puzzle\<close> is not caught;
  \<open>len(self.results) % save_interval\<close> raises for the interval 0.
\<close>

definition worker :: "env \<Rightarrow> int \<Rightarrow> path \<Rightarrow> pydict \<Rightarrow> state \<Rightarrow> state outcome" where
  "worker ev save_interval outfile puzzle_item_data s =
     (case fst (analyze_puzzle ev puzzle_item_data) of
        Inl e \<Rightarrow> Raises e
      | Inr result \<Rightarrow>
          and_then
            (case ident puzzle_item_data of
               None \<Rightarrow> Returns (False, s)
             | Some current_id \<Rightarrow>
                 with_lock
                   (\<lambda>s1. let s2 = s1\<lparr>results := setitem (results s1) (Some current_id) result\<rparr>
                         in if save_interval = 0
                            then Raises ''integer division or modulo by zero''
                            else Returns (int (length (results s2)) mod save_interval = 0, s2))
                   s)
            (\<lambda>(need_save, s'). if need_save then LogicPuzzleSolver_save outfile s'
                                else Returns s'))"

text \<open>
  \<open>LogicPuzzleSolver.process_batch\<close>, on the state a new solver has (\<open>results\<close> empty,
  lock free). \<open>order\<close> is the order in which the workers run, a permutation of
  \<open>items_to_process\<close>. An exception of a worker leaves \<open>process_batch\<close> through
  \<open>executor.map\<close>, before the final save.
\<close>

definition LogicPuzzleSolver_process_batch ::
  "env \<Rightarrow> pydict list \<Rightarrow> int \<Rightarrow> path \<Rightarrow> pydict list \<Rightarrow> state \<Rightarrow> state outcome"
where
  "LogicPuzzleSolver_process_batch ev data save_interval outfile order s =
     (let s1 = s\<lparr>results := load (fs s) outfile (results s)\<rparr>;
          items_to_process = items_to_process_verify data (results s1)
      in if items_to_process = []
         then (if results s1 \<noteq> [] then LogicPuzzleSolver_save outfile s1 else Returns s1)
         else and_then (run_tasks (worker ev save_interval outfile) order s1)
                (LogicPuzzleSolver_save outfile))"

section \<open>step1.6 and step1.8: provider batches\<close>

text \<open>
  The constructors. \<open>Anthropic_API_KEY\<close> is the key that \<open>api_config\<close> provides, a
  parameter here; \<open>is_file\<close> and \<open>exists\<close> are the file tests of the constructor.
\<close>

datatype client = Anthropic "string option"

record 'f batch_stage =
  client :: client
  model :: string
  batch_size :: int
  max_tokens :: int
  temperature :: 'f

definition BatchRegularityExtractor_init ::
  "string option \<Rightarrow> (string \<Rightarrow> bool) \<Rightarrow> (string \<Rightarrow> bool) \<Rightarrow>
   string option \<Rightarrow> string \<Rightarrow> string \<Rightarrow> string \<Rightarrow> int \<Rightarrow> int \<Rightarrow> 'f \<Rightarrow> exn + 'f batch_stage"
where
  "BatchRegularityExtractor_init Anthropic_API_KEY is_file exists
     api_key template_path example_image_path model' batch_size' max_tokens' temperature' =
     (let self = \<lparr>client = Anthropic Anthropic_API_KEY, model = model',
                  batch_size = batch_size', max_tokens = max_tokens',
                  temperature = temperature'\<rparr>
      in if \<not> is_file template_path then Inl (''Template not found: '' @ template_path)
         else if \<not> exists example_image_path
         then Inl (''Image not found: '' @ example_image_path)
         else Inr self)"

definition PuzzleClassifier_init ::
  "string option \<Rightarrow> (string \<Rightarrow> bool) \<Rightarrow>
   string option \<Rightarrow> string \<Rightarrow> string \<Rightarrow> int \<Rightarrow> int \<Rightarrow> 'f \<Rightarrow> exn + 'f batch_stage"
where
  "PuzzleClassifier_init Anthropic_API_KEY is_file
     api_key template_path model' batch_size' max_tokens' temperature' =
     (let self = \<lparr>client = Anthropic Anthropic_API_KEY, model = model',
                  batch_size = batch_size', max_tokens = max_tokens',
                  temperature = temperature'\<rparr>
      in if \<not> is_file template_path then Inl (''Template not found: '' @ template_path)
         else Inr self)"

text \<open>\<open>str.splitlines\<close> on the ASCII range.\<close>

definition linebreak :: "char \<Rightarrow> bool" where
  "linebreak c = (c \<in> set [CHR 0x0A, CHR 0x0B, CHR 0x0C, CHR 0x0D, CHR 0x1C, CHR 0x1D, CHR 0x1E])"

fun splitlines_from :: "string \<Rightarrow> string \<Rightarrow> string list" where
  "splitlines_from cur [] = (if cur = [] then [] else [rev cur])"
| "splitlines_from cur [c] = (if linebreak c then [rev cur] else [rev (c # cur)])"
| "splitlines_from cur (c # d # cs) =
     (if c = CHR 0x0D \<and> d = CHR 0x0A then rev cur # splitlines_from [] cs
      else if linebreak c then rev cur # splitlines_from [] (d # cs)
      else splitlines_from (c # cur) (d # cs))"

definition splitlines :: "string \<Rightarrow> string list" where
  "splitlines s = splitlines_from [] s"

text \<open>The records of a succeeded request: step1.6 and step1.8.\<close>

definition key_points :: "string \<Rightarrow> string list" where
  "key_points txt =
     [dropWhile (\<lambda>c. c = CHR ''-'' \<or> c = CHR '' '') (strip ln).
        ln \<leftarrow> splitlines (tag_or_empty ''key_points'' txt), strip ln \<noteq> [] \<and> strip ln \<noteq> ''-'']"

definition extractor_record :: "int \<Rightarrow> pydict \<Rightarrow> string \<Rightarrow> pydict" where
  "extractor_record pid itm txt =
     \<lparr>ident = Some pid,
      entries = [(''correct_answer'', get_or_empty itm ''correct_answer''),
                 (''detailed_analysis'', JStr (tag_or_empty ''detailed_analysis'' txt)),
                 (''puzzle_breakdown'', JStr (tag_or_empty ''puzzle_breakdown'' txt)),
                 (''key_points'', JStrs (key_points txt)),
                 (''raw_response'', JStr txt)]\<rparr>"

definition classifier_record :: "int \<Rightarrow> pydict \<Rightarrow> string \<Rightarrow> pydict" where
  "classifier_record pid itm txt =
     \<lparr>ident = Some pid,
      entries = [(''correct_answer'', get_or_empty itm ''correct_answer''),
                 (''puzzle_breakdown'', JStr (tag_or_empty ''puzzle_breakdown'' txt)),
                 (''question_type'', JStr (tag_or_empty ''question_type'' txt)),
                 (''knowledge_point'', JStr (tag_or_empty ''knowledge_point'' txt)),
                 (''raw_response'', JStr txt)]\<rparr>"

text \<open>
  The image of an item encodes when the item has an \<open>image\<close> entry that is the path of
  an existing file; every failure there is caught by \<open>_prepare_batch_requests\<close>.
\<close>

definition image_encodes :: "env \<Rightarrow> pydict \<Rightarrow> bool" where
  "image_encodes ev itm =
     (case map_of (entries itm) ''image'' of Some (JStr p) \<Rightarrow> path_exists ev p | _ \<Rightarrow> False)"

text \<open>
  \<open>_prepare_batch_requests\<close> and \<open>_prepare_requests\<close>: an item whose id is in \<open>results\<close>
  or whose image does not encode is skipped, with a printed line in the second case. A
  request is its custom id with its rendered content; \<open>id_map\<close> is keyed by the id, the
  custom id read back by \<open>int\<close>. An exception of the rendering is not caught.
\<close>

fun prepare_batch_requests ::
  "env \<Rightarrow> results \<Rightarrow> pydict list \<Rightarrow> exn + (int \<times> string) list \<times> (int \<times> pydict) list"
where
  "prepare_batch_requests ev res [] = Inr ([], [])"
| "prepare_batch_requests ev res (itm # items) =
     (case ident itm of
        None \<Rightarrow> Inl ''id''
      | Some pid \<Rightarrow>
          if contains res (Some pid) then prepare_batch_requests ev res items
          else if \<not> image_encodes ev itm then prepare_batch_requests ev res items
          else (case build_prompt ev itm of
                  Inl e \<Rightarrow> Inl e
                | Inr content \<Rightarrow>
                    (case prepare_batch_requests ev res items of
                       Inl e \<Rightarrow> Inl e
                     | Inr (reqs, id_map) \<Rightarrow>
                         Inr ((pid, content) # reqs,
                              if map_of id_map pid = None then (pid, itm) # id_map
                              else id_map))))"

text \<open>
  The polling loop: it ends when the status is \<open>ended\<close> or when \<open>retrieve\<close> raises,
  and runs for ever otherwise.
\<close>

partial_function (option) poll :: "(nat \<Rightarrow> exn + string) \<Rightarrow> nat \<Rightarrow> (exn + unit) option" where
  "poll retrieve n =
     (case retrieve n of
        Inl e \<Rightarrow> Some (Inl e)
      | Inr status \<Rightarrow> if status = ''ended'' then Some (Inr ()) else poll retrieve (Suc n))"

text \<open>
  The loop over the entries of an ended job. \<open>id_map[str(pid)]\<close> raises for an id that
  was not requested; the exception ends the loop, what was stored before stays.
\<close>

fun store_entries ::
  "(int \<Rightarrow> pydict \<Rightarrow> string \<Rightarrow> pydict) \<Rightarrow> (int \<times> pydict) list \<Rightarrow> batch_entry list \<Rightarrow> results \<Rightarrow> results"
where
  "store_entries mk id_map [] res = res"
| "store_entries mk id_map (ent # ents) res =
     (case message ent of
        Some content \<Rightarrow>
          (case map_of id_map (custom_id ent) of
             None \<Rightarrow> res
           | Some itm \<Rightarrow>
               store_entries mk id_map ents
                 (setitem res (Some (custom_id ent))
                    (mk (custom_id ent) itm (join_text content))))
      | None \<Rightarrow>
          store_entries mk id_map ents
            (setitem res (Some (custom_id ent))
               \<lparr>ident = Some (custom_id ent), entries = [(''error'', JStr (error_text ent))]\<rparr>))"

text \<open>The \<open>try\<close> block of a chunk: every exception is caught and reported.\<close>

definition run_batch ::
  "(int \<Rightarrow> pydict \<Rightarrow> string \<Rightarrow> pydict) \<Rightarrow> env \<Rightarrow> (int \<times> string) list \<Rightarrow> (int \<times> pydict) list \<Rightarrow>
   state \<Rightarrow> state outcome"
where
  "run_batch mk ev reqs id_map s =
     (case batches_create ev reqs of
        Inl e \<Rightarrow> Returns s
      | Inr bid \<Rightarrow>
          (case poll (batches_retrieve ev bid) 0 of
             None \<Rightarrow> Hangs
           | Some (Inl e) \<Rightarrow> Returns s
           | Some (Inr u) \<Rightarrow>
               (case batches_results ev bid of
                  Inl e \<Rightarrow> Returns s
                | Inr ents \<Rightarrow> Returns (s\<lparr>results := store_entries mk id_map ents (results s)\<rparr>))))"

text \<open>
  \<open>_save\<close> of the batch stages: the directory is created, the file is opened and the
  sorted records are written; \<open>r["id"]\<close> raises for a record without id.
\<close>

definition batch_save :: "path \<Rightarrow> state \<Rightarrow> state outcome" where
  "batch_save p s =
     (let f1 = mkdir_parent (fs s) p
      in if \<exists>r \<in> set (values_of (results s)). ident r = None then Raises ''id''
         else (case open_write f1 p (sort_key (\<lambda>r. the (ident r)) (values_of (results s))) of
                 Inl e \<Rightarrow> Raises e
               | Inr f2 \<Rightarrow> Returns (s\<lparr>fs := f2\<rparr>)))"

text \<open>\<open>[todo[idx : idx + n] for idx in range(0, len(todo), n)]\<close> for a positive \<open>n\<close>.\<close>

fun chunks :: "nat \<Rightarrow> 'a list \<Rightarrow> 'a list list" where
  "chunks n xs = (if n = 0 \<or> xs = [] then [] else take n xs # chunks n (drop n xs))"

text \<open>
  The loop over the chunks, \<open>k\<close> being \<open>idx // batch_size\<close>. A chunk without requests is
  passed over with \<open>continue\<close>, before the periodic save.
\<close>

fun batch_loop ::
  "(int \<Rightarrow> pydict \<Rightarrow> string \<Rightarrow> pydict) \<Rightarrow> env \<Rightarrow> int \<Rightarrow> path \<Rightarrow> nat \<Rightarrow> pydict list list \<Rightarrow>
   state \<Rightarrow> state outcome"
where
  "batch_loop mk ev save_interval out_path k [] s = Returns s"
| "batch_loop mk ev save_interval out_path k (chunk # rest) s =
     (case prepare_batch_requests ev (results s) chunk of
        Inl e \<Rightarrow> Raises e
      | Inr (reqs, id_map) \<Rightarrow>
          if reqs = [] then batch_loop mk ev save_interval out_path (Suc k) rest s
          else and_then (run_batch mk ev reqs id_map s)
                 (\<lambda>s1. if save_interval = 0 then Raises ''integer division or modulo by zero''
                       else and_then
                              (if (int k + 1) mod save_interval = 0 then batch_save out_path s1
                               else Returns s1)
                              (batch_loop mk ev save_interval out_path (Suc k) rest)))"

text \<open>
  \<open>BatchRegularityExtractor.process_batch\<close> and \<open>PuzzleClassifier.process\<close> are the same
  function up to the record built from a response. \<open>x["id"]\<close> raises for an item without
  id, \<open>range\<close> for the step 0, and a negative step gives no chunk.
\<close>

definition batch_process ::
  "(int \<Rightarrow> pydict \<Rightarrow> string \<Rightarrow> pydict) \<Rightarrow> env \<Rightarrow> 'f batch_stage \<Rightarrow> pydict list \<Rightarrow> int \<Rightarrow> path \<Rightarrow>
   state \<Rightarrow> state outcome"
where
  "batch_process mk ev self items save_interval out_path s =
     (let s1 = s\<lparr>results := load_batch (fs s) out_path (results s)\<rparr>
      in if \<exists>x \<in> set items. ident x = None then Raises ''id''
         else (let todo = [x \<leftarrow> items. \<not> contains (results s1) (ident x)]
               in if todo = [] then Returns s1
                  else if batch_size self = 0 then Raises ''range() arg 3 must not be zero''
                  else and_then
                         (batch_loop mk ev save_interval out_path 0
                            (if batch_size self < 0 then []
                             else chunks (nat (batch_size self)) todo)
                            s1)
                         (batch_save out_path)))"

definition BatchRegularityExtractor_process_batch ::
  "env \<Rightarrow> 'f batch_stage \<Rightarrow> pydict list \<Rightarrow> int \<Rightarrow> path \<Rightarrow> state \<Rightarrow> state outcome"
where
  "BatchRegularityExtractor_process_batch = batch_process extractor_record"

definition PuzzleClassifier_process ::
  "env \<Rightarrow> 'f batch_stage \<Rightarrow> pydict list \<Rightarrow> int \<Rightarrow> path \<Rightarrow> state \<Rightarrow> state outcome"
where
  "PuzzleClassifier_process = batch_process classifier_record"

section \<open>Example environments\<close>

text \<open>A provider that answers every call with a rate-limit error; every image exists.\<close>

definition rate_limited_env :: env where
  "rate_limited_env =
     \<lparr>format_template = (\<lambda>v. Inr ''prompt''),
      path_exists = (\<lambda>p. True),
      build_prompt = (\<lambda>d. Inr ''payload''),
      messages_create = (\<lambda>p n. Inl ''rate_limit_error''),
      elapsed = (\<lambda>p n. 0),
      uniform = (\<lambda>p n. 0),
      elapsed_item = (\<lambda>d n. 0),
      batches_create = (\<lambda>reqs. Inl ''rate_limit_error''),
      batches_retrieve = (\<lambda>bid n. Inl ''rate_limit_error''),
      batches_results = (\<lambda>bid. Inl ''rate_limit_error'')\<rparr>"

text \<open>
  A provider that answers every call with the text \<open>reply\<close>, and every batch with no
  entry; no image exists.
\<close>

definition answering_env :: "string \<Rightarrow> env" where
  "answering_env reply =
     \<lparr>format_template = (\<lambda>v. Inr ''prompt''),
      path_exists = (\<lambda>p. False),
      build_prompt = (\<lambda>d. Inr ''payload''),
      messages_create = (\<lambda>p n. Inr [TextBlock reply]),
      elapsed = (\<lambda>p n. 0),
      uniform = (\<lambda>p n. 0),
      elapsed_item = (\<lambda>d n. 0),
      batches_create = (\<lambda>reqs. Inr ''batch''),
      batches_retrieve = (\<lambda>bid n. Inr ''ended''),
      batches_results = (\<lambda>bid. Inr [])\<rparr>"

text \<open>A file system with the directory \<open>out\<close> and no file, and paths in it.\<close>

definition empty_fs :: filesystem where
  "empty_fs = \<lparr>dirs = {''out''}, files = (\<lambda>p. None)\<rparr>"

definition out_json :: path where
  "out_json = \<lparr>parent = ''out'', stem = ''result'', suffix = ''.json''\<rparr>"

definition new_state :: "filesystem \<Rightarrow> state" where
  "new_state f = \<lparr>results = [], lock = False, processed_since_last_save = 0, fs = f\<rparr>"

text \<open>
  A provider whose first call fails with a rate-limit error after 10 seconds and whose
  later calls fail with another error.
\<close>

definition flaky_env :: env where
  "flaky_env =
     \<lparr>format_template = (\<lambda>v. Inr ''prompt''),
      path_exists = (\<lambda>p. True),
      build_prompt = (\<lambda>d. Inr ''payload''),
      messages_create = (\<lambda>p n. if n = 1 then Inl ''429 rate_limit_error'' else Inl ''boom''),
      elapsed = (\<lambda>p n. 10),
      uniform = (\<lambda>p n. 1),
      elapsed_item = (\<lambda>d n. 10),
      batches_create = (\<lambda>reqs. Inl ''boom''),
      batches_retrieve = (\<lambda>bid n. Inl ''boom''),
      batches_results = (\<lambda>bid. Inl ''boom'')\<rparr>"

section \<open>The invariant of the results dictionary\<close>

text \<open>
  The keys of a dictionary are distinct, and every run stores a record under its own id.
\<close>

definition wf_results :: "results \<Rightarrow> bool" where
  "wf_results res = (distinct (map fst res) \<and> (\<forall>(k, r) \<in> set res. ident r = k))"

section \<open>Properties of the resume planner\<close>

lemma map_of_in_values:
  "map_of res k = Some r \<Longrightarrow> r \<in> set (values_of res)"
  unfolding values_of_def by (force dest: map_of_SomeD)

text \<open>
  C1 (counterexample). In step1.4 a loaded record that carries neither a success payload
  nor an error, here a record with the id alone, still removes its item from the pending
  list, while the claim keeps every item whose record is not resolved.
\<close>

theorem C1_verify_skips_unresolved_record:
  "items_to_process_verify
     [\<lparr>ident = Some 1, entries = [(''image'', JStr ''a.png'')]\<rparr>]
     [(Some 1, \<lparr>ident = Some 1, entries = []\<rparr>)] = []
   \<and> spec_pending ''answer''
     [\<lparr>ident = Some 1, entries = [(''image'', JStr ''a.png'')]\<rparr>]
     [(Some 1, \<lparr>ident = Some 1, entries = []\<rparr>)]
     = [\<lparr>ident = Some 1, entries = [(''image'', JStr ''a.png'')]\<rparr>]"
  by (simp add: items_to_process_verify_def contains_def spec_pending_def
      spec_resolved_def has_key_def)

text \<open>
  C1 (amended). In step1.2 the pending list is exactly the input items, in input order,
  whose id does not map to a record with a \<open>translation\<close> or an \<open>error\<close> entry. In step1.4
  the pending list is the input items, in input order, whose id is not a key of the loaded
  results at all; it is the list the claim describes whenever every loaded record is
  resolved.
\<close>

theorem C1_pending_subset:
  "items_to_process_rewrite data res = spec_pending ''translation'' data res
   \<and> items_to_process_verify data res = [d \<leftarrow> data. map_of res (ident d) = None]
   \<and> ((\<forall>r \<in> set (values_of res). spec_resolved succ r) \<longrightarrow>
        items_to_process_verify data res = spec_pending succ data res)"
proof (intro conjI impI)
  show "items_to_process_rewrite data res = spec_pending ''translation'' data res"
    unfolding items_to_process_rewrite_def spec_pending_def already_done_rewrite_def
      spec_resolved_def by (rule refl)
  show "items_to_process_verify data res = [d \<leftarrow> data. map_of res (ident d) = None]"
    by (simp add: items_to_process_verify_def contains_def)
next
  assume all: "\<forall>r \<in> set (values_of res). spec_resolved succ r"
  have "\<And>d. (\<not> contains res (ident d)) =
      (\<not> (case map_of res (ident d) of None \<Rightarrow> False | Some r \<Rightarrow> spec_resolved succ r))"
    using all by (auto simp: contains_def dest: map_of_in_values split: option.splits)
  then show "items_to_process_verify data res = spec_pending succ data res"
    unfolding items_to_process_verify_def spec_pending_def by (intro filter_cong refl)
qed

theorem C1_pending_subset_witness:
  "spec_resolved ''answer'' \<lparr>ident = Some 1, entries = [(''error'', JStr ''boom'')]\<rparr>
   \<and> items_to_process_verify
       [\<lparr>ident = Some 1, entries = []\<rparr>, \<lparr>ident = Some 2, entries = []\<rparr>]
       [(Some 1, \<lparr>ident = Some 1, entries = [(''error'', JStr ''boom'')]\<rparr>)]
     = [\<lparr>ident = Some 2, entries = []\<rparr>]
   \<and> spec_pending ''answer''
       [\<lparr>ident = Some 1, entries = []\<rparr>, \<lparr>ident = Some 2, entries = []\<rparr>]
       [(Some 1, \<lparr>ident = Some 1, entries = [(''error'', JStr ''boom'')]\<rparr>)]
     = [\<lparr>ident = Some 2, entries = []\<rparr>]"
  using C1_pending_subset [of
      "[\<lparr>ident = Some 1, entries = []\<rparr>, \<lparr>ident = Some 2, entries = []\<rparr>]"
      "[(Some 1, \<lparr>ident = Some 1, entries = [(''error'', JStr ''boom'')]\<rparr>)]"
      "''answer''"]
  by (simp add: values_of_def spec_resolved_def has_key_def items_to_process_verify_def
      contains_def)

section \<open>Properties of the response parsing\<close>

lemma startswith_append: "startswith s sub \<Longrightarrow> \<exists>post. s = sub @ post"
  by (induction s sub rule: startswith.induct) auto

lemma startswith_self_append: "startswith (sub @ post) sub"
  by (induction sub) auto

lemma str_find_Some_split:
  "str_find s sub = Some p \<Longrightarrow> \<exists>post. drop p s = sub @ post"
proof (induction s arbitrary: p)
  case Nil
  then show ?case by (simp split: if_splits)
next
  case (Cons c cs)
  show ?case
  proof (cases "startswith (c # cs) sub")
    case True
    with Cons.prems have "p = 0" by simp
    with True startswith_append show ?thesis by fastforce
  next
    case False
    with Cons.prems obtain q where q: "str_find cs sub = Some q" "p = Suc q" by auto
    from Cons.IH [OF q(1)] q(2) show ?thesis by simp
  qed
qed

lemma str_find_None_no_occurrence:
  "str_find s sub = None \<Longrightarrow> s \<noteq> pre @ sub @ post"
proof (induction s arbitrary: pre)
  case Nil
  then show ?case by (auto split: if_splits)
next
  case (Cons c cs)
  from Cons.prems have ns: "\<not> startswith (c # cs) sub" and rest: "str_find cs sub = None"
    by (auto split: if_splits)
  show ?case
  proof (cases pre)
    case Nil
    with ns startswith_self_append [of sub post] show ?thesis by auto
  next
    case (Cons a pre')
    with Cons.IH [OF rest, of pre'] show ?thesis by auto
  qed
qed

lemma re_search_group_None:
  assumes "\<not> (\<exists>pre mid post. txt = pre @ otag @ mid @ ctag @ post)"
  shows "re_search_group otag ctag txt = None"
proof (rule ccontr)
  assume "re_search_group otag ctag txt \<noteq> None"
  then obtain p c where p: "str_find txt otag = Some p"
    and c: "str_find (drop (p + length otag) txt) ctag = Some c"
    by (auto simp: re_search_group_def Let_def split: option.splits)
  from str_find_Some_split [OF p] obtain post where post: "drop p txt = otag @ post" by blast
  then have rest: "drop (p + length otag) txt = post"
    by (metis add.commute append_eq_conv_conj drop_drop)
  from str_find_Some_split [OF c] rest obtain post' where "drop c post = ctag @ post'" by auto
  then have "post = take c post @ ctag @ post'" by (metis append_take_drop_id)
  with post have "txt = take p txt @ otag @ take c post @ ctag @ post'"
    by (metis append_take_drop_id)
  with assms show False by blast
qed

text \<open>
  C7 (counterexample). In step1.4 a response without the tags gives an empty
  \<open>reasoning\<close> and an empty \<open>answer\<close>, not the stripped response; the response is kept
  as it came, white space included, in \<open>raw_response\<close>.
\<close>

theorem C7_verify_no_fallback_to_response:
  "map_of (entries (parse_answer \<lparr>ident = Some 1, entries = []\<rparr> 1 '' B '')) ''answer''
     = Some (JStr [])
   \<and> map_of (entries (parse_answer \<lparr>ident = Some 1, entries = []\<rparr> 1 '' B '')) ''reasoning''
     = Some (JStr [])
   \<and> map_of (entries (parse_answer \<lparr>ident = Some 1, entries = []\<rparr> 1 '' B '')) ''raw_response''
     = Some (JStr '' B '')
   \<and> strip '' B '' = ''B''"
  by (simp add: parse_answer_def tag_or_empty_def re_search_group_def strip_def lstrip_def
      rstrip_def isspace_def)

text \<open>
  C7 (amended). When the response has no opening tag followed by a closing tag, step1.2
  takes the stripped response as the translation and prints the warning, and step1.4
  leaves the field of the tag empty and prints nothing, the response being kept unchanged
  in \<open>raw_response\<close> in every case. Both parses are total functions of the response.
\<close>

theorem C7_parse_without_tag:
  "(\<not> (\<exists>pre mid post. response_text =
          pre @ ''<translated_explanation>'' @ mid @ ''</translated_explanation>'' @ post) \<longrightarrow>
      parse_response response_text = (strip response_text, True))
   \<and> (\<not> (\<exists>pre mid post. response_text =
          pre @ (''<'' @ tag @ ''>'') @ mid @ (''</'' @ tag @ ''>'') @ post) \<longrightarrow>
      tag_or_empty tag response_text = [])
   \<and> map_of (entries (parse_answer item i response_text)) ''raw_response''
       = Some (JStr response_text)"
proof (intro conjI impI)
  assume "\<not> (\<exists>pre mid post. response_text =
          pre @ ''<translated_explanation>'' @ mid @ ''</translated_explanation>'' @ post)"
  then have "re_search_group ''<translated_explanation>'' ''</translated_explanation>''
      response_text = None"
    by (rule re_search_group_None)
  then show "parse_response response_text = (strip response_text, True)"
    by (simp add: parse_response_def re_search_group_ws_def)
next
  assume "\<not> (\<exists>pre mid post. response_text =
          pre @ (''<'' @ tag @ ''>'') @ mid @ (''</'' @ tag @ ''>'') @ post)"
  then have "re_search_group (''<'' @ tag @ ''>'') (''</'' @ tag @ ''>'') response_text = None"
    by (rule re_search_group_None)
  then show "tag_or_empty tag response_text = []"
    by (simp add: tag_or_empty_def)
next
  show "map_of (entries (parse_answer item i response_text)) ''raw_response''
       = Some (JStr response_text)"
    by (simp add: parse_answer_def)
qed

lemma no_tag_in_plain_text:
  "\<not> (\<exists>pre mid post. ''plain text'' = pre @ (CHR ''<'' # otag) @ mid @ ctag @ post)"
proof
  assume "\<exists>pre mid post. ''plain text'' = pre @ (CHR ''<'' # otag) @ mid @ ctag @ post"
  then obtain pre mid post where eq: "''plain text'' = pre @ (CHR ''<'' # otag) @ mid @ ctag @ post"
    by blast
  have "CHR ''<'' \<in> set (pre @ (CHR ''<'' # otag) @ mid @ ctag @ post)" by simp
  then have "CHR ''<'' \<in> set ''plain text''" by (simp only: eq [symmetric])
  then show False by simp
qed

theorem C7_parse_without_tag_witness:
  "\<not> (\<exists>pre mid post. ''plain text'' =
          pre @ ''<translated_explanation>'' @ mid @ ''</translated_explanation>'' @ post)
   \<and> parse_response ''plain text'' = (''plain text'', True)
   \<and> \<not> (\<exists>pre mid post. ''plain text'' =
          pre @ (''<'' @ ''answer'' @ ''>'') @ mid @ (''</'' @ ''answer'' @ ''>'') @ post)
   \<and> tag_or_empty ''answer'' ''plain text'' = []"
proof -
  have a: "\<not> (\<exists>pre mid post. ''plain text'' =
          pre @ ''<translated_explanation>'' @ mid @ ''</translated_explanation>'' @ post)"
    by (rule no_tag_in_plain_text)
  have e: "''<'' @ ''answer'' @ ''>'' = CHR ''<'' # ''answer>''" by simp
  have b: "\<not> (\<exists>pre mid post. ''plain text'' =
          pre @ (''<'' @ ''answer'' @ ''>'') @ mid @ (''</'' @ ''answer'' @ ''>'') @ post)"
    unfolding e by (rule no_tag_in_plain_text)
  have s: "strip ''plain text'' = ''plain text''"
    by (simp add: strip_def lstrip_def rstrip_def isspace_def)
  from a C7_parse_without_tag [of "''plain text''" "''answer''"]
  have p: "parse_response ''plain text'' = (strip ''plain text'', True)" by blast
  from b C7_parse_without_tag [of "''plain text''" "''answer''"]
  have t: "tag_or_empty ''answer'' ''plain text'' = []" by blast
  from p s have p': "parse_response ''plain text'' = (''plain text'', True)" by (simp only:)
  from a p' b t show ?thesis by (intro conjI)
qed

section \<open>Properties of the retry\<close>

declare on_exception.simps [simp del]

lemma on_exception_char:
  "\<exists>k. snd (on_exception cfg clock target t w)
         = w @ map (\<lambda>n. next_wait cfg clock n) [t..<t + k]
     \<and> fst (on_exception cfg clock target t w) = target (t + k)
     \<and> (\<forall>n. t \<le> n \<and> n < t + k \<longrightarrow>
           (\<exists>e. target n = Inl e \<and> \<not> giveup cfg e \<and> n < max_tries cfg \<and> clock n < max_time cfg))
     \<and> (\<forall>e. target (t + k) = Inl e \<longrightarrow>
           giveup cfg e \<or> max_tries cfg \<le> t + k \<or> max_time cfg \<le> clock (t + k))"
proof (induction cfg clock target t w rule: on_exception.induct)
  case (1 cfg clock target tries waits)
  show ?case
  proof (cases "target tries")
    case (Inr ret)
    then show ?thesis
      by (intro exI [of _ 0]) (auto simp: on_exception.simps [of cfg clock target tries waits])
  next
    case (Inl e)
    show ?thesis
    proof (cases "giveup cfg e \<or> max_tries cfg \<le> tries \<or> max_time cfg \<le> clock tries")
      case True
      with Inl show ?thesis
        by (intro exI [of _ 0]) (auto simp: on_exception.simps [of cfg clock target tries waits])
    next
      case False
      from "1.IH" [OF Inl False] obtain k where
        k: "snd (on_exception cfg clock target (Suc tries)
                 (waits @ [next_wait cfg clock tries]))
            = (waits @ [next_wait cfg clock tries])
              @ map (\<lambda>n. next_wait cfg clock n) [Suc tries..<Suc tries + k]"
          "fst (on_exception cfg clock target (Suc tries)
                 (waits @ [next_wait cfg clock tries]))
            = target (Suc tries + k)"
          "\<forall>n. Suc tries \<le> n \<and> n < Suc tries + k \<longrightarrow>
             (\<exists>e. target n = Inl e \<and> \<not> giveup cfg e \<and> n < max_tries cfg \<and> clock n < max_time cfg)"
          "\<forall>e. target (Suc tries + k) = Inl e \<longrightarrow>
             giveup cfg e \<or> max_tries cfg \<le> Suc tries + k \<or> max_time cfg \<le> clock (Suc tries + k)"
        by blast
      have step: "on_exception cfg clock target tries waits
          = on_exception cfg clock target (Suc tries)
              (waits @ [next_wait cfg clock tries])"
        using Inl False by (simp add: on_exception.simps [of cfg clock target tries waits])
      have upt: "[tries..<tries + Suc k] = tries # [Suc tries..<Suc tries + k]"
        by (simp add: upt_conv_Cons)
      have prev: "\<forall>n. tries \<le> n \<and> n < tries + Suc k \<longrightarrow>
             (\<exists>e. target n = Inl e \<and> \<not> giveup cfg e \<and> n < max_tries cfg \<and> clock n < max_time cfg)"
      proof (intro allI impI)
        fix n assume n: "tries \<le> n \<and> n < tries + Suc k"
        show "\<exists>e. target n = Inl e \<and> \<not> giveup cfg e \<and> n < max_tries cfg \<and> clock n < max_time cfg"
        proof (cases "n = tries")
          case True
          with Inl False show ?thesis by auto
        next
          case False
          with n have "Suc tries \<le> n \<and> n < Suc tries + k" by simp
          with k(3) show ?thesis by blast
        qed
      qed
      show ?thesis
        apply (rule exI [of _ "Suc k"])
        unfolding step upt
        using k(1) k(2) k(4) prev by simp
    qed
  qed
qed


lemma on_exception_from_one:
  assumes "on_exception cfg clock target 1 [] = (r, ws)"
  shows "r = target (length ws + 1)"
    and "\<forall>n. 1 \<le> n \<and> n \<le> length ws \<longrightarrow>
           (\<exists>e. target n = Inl e \<and> \<not> giveup cfg e \<and> n < max_tries cfg \<and> clock n < max_time cfg
              \<and> ws ! (n - 1) = next_wait cfg clock n)"
    and "\<forall>e. target (length ws + 1) = Inl e \<longrightarrow>
           giveup cfg e \<or> max_tries cfg \<le> length ws + 1 \<or> max_time cfg \<le> clock (length ws + 1)"
proof -
  from on_exception_char [of cfg clock target 1 "[]"] assms obtain k where
    k: "ws = map (\<lambda>n. next_wait cfg clock n) [1..<1 + k]"
      "r = target (1 + k)"
      "\<forall>n. 1 \<le> n \<and> n < 1 + k \<longrightarrow>
         (\<exists>e. target n = Inl e \<and> \<not> giveup cfg e \<and> n < max_tries cfg \<and> clock n < max_time cfg)"
      "\<forall>e. target (1 + k) = Inl e \<longrightarrow>
         giveup cfg e \<or> max_tries cfg \<le> 1 + k \<or> max_time cfg \<le> clock (1 + k)"
    by auto
  from k(1) have len: "length ws = k" by simp
  from k(2) len show "r = target (length ws + 1)" by simp
  from k(4) len show "\<forall>e. target (length ws + 1) = Inl e \<longrightarrow>
           giveup cfg e \<or> max_tries cfg \<le> length ws + 1 \<or> max_time cfg \<le> clock (length ws + 1)"
    by simp
  show "\<forall>n. 1 \<le> n \<and> n \<le> length ws \<longrightarrow>
           (\<exists>e. target n = Inl e \<and> \<not> giveup cfg e \<and> n < max_tries cfg \<and> clock n < max_time cfg
              \<and> ws ! (n - 1) = next_wait cfg clock n)"
  proof (intro allI impI)
    fix n assume n: "1 \<le> n \<and> n \<le> length ws"
    with len have n': "1 \<le> n \<and> n < 1 + k" by simp
    with k(3) obtain e where e: "target n = Inl e" "\<not> giveup cfg e" "n < max_tries cfg"
      "clock n < max_time cfg" by blast
    from n' have "1 + (n - 1) < 1 + k" by simp
    then have "[1..<1 + k] ! (n - 1) = 1 + (n - 1)" by (rule nth_upt)
    with n' have nth: "[1..<1 + k] ! (n - 1) = n" by simp
    from n' have "n - 1 < length [1..<1 + k]" by auto
    then have "map (\<lambda>n. next_wait cfg clock n) [1..<1 + k] ! (n - 1)
        = (\<lambda>n. next_wait cfg clock n) ([1..<1 + k] ! (n - 1))"
      by (rule nth_map)
    with nth k(1) have "ws ! (n - 1) = next_wait cfg clock n"
      by (simp only:)
    with e show "\<exists>e. target n = Inl e \<and> \<not> giveup cfg e \<and> n < max_tries cfg \<and> clock n < max_time cfg
              \<and> ws ! (n - 1) = next_wait cfg clock n"
      by blast
  qed
qed

lemma on_exception_calls_bound:
  assumes "on_exception cfg clock target 1 [] = (r, ws)"
  shows "length ws < max (max_tries cfg) 1"
proof (cases "length ws")
  case 0
  then show ?thesis by simp
next
  case (Suc m)
  with on_exception_from_one(2) [OF assms] have "length ws < max_tries cfg" by auto
  then show ?thesis by simp
qed

lemma translate_config_simps:
  "max_tries (translate_retry_config draw) = 8"
  "max_time (translate_retry_config draw) = 300"
  "giveup (translate_retry_config draw) e = (\<not> str_contains ''rate_limit_error'' (lower e))"
  "next_wait (translate_retry_config draw) clock n
     = min (min (draw n) (2 ^ (n - 1))) (300 - clock n)"
  by (simp_all add: translate_retry_config_def next_wait_def Let_def)

lemma analyze_config_simps:
  "max_tries analyze_retry_config = 8"
  "max_time analyze_retry_config = 300"
  "giveup analyze_retry_config e = False"
  "next_wait analyze_retry_config clock n = min (2 ^ (n - 1)) (300 - clock n)"
  by (simp_all add: analyze_retry_config_def next_wait_def Let_def)

lemma analyze_puzzle_body_cases:
  "analyze_puzzle_body ev item n =
     (case analyze_puzzle_try ev item n of
        Inr r \<Rightarrow> Inr r
      | Inl e \<Rightarrow> if str_contains ''rate_limit_error'' e then Inl e
                 else Inr \<lparr>ident = ident item, entries = [(''error'', JStr e)]\<rparr>)"
  by (simp add: analyze_puzzle_body_def)

lemma flaky_analyze:
  "analyze_puzzle flaky_env \<lparr>ident = Some 1, entries = [(''image'', JStr ''a.png'')]\<rparr>
     = (Inr \<lparr>ident = Some 1, entries = [(''error'', JStr ''boom'')]\<rparr>, [1])"
  unfolding analyze_puzzle_def
  apply (subst on_exception.simps)
  apply (subst on_exception.simps)
  apply (simp add: flaky_env_def analyze_retry_config_def next_wait_def analyze_puzzle_body_def
      analyze_puzzle_try_def encode_image_def str_contains_def Let_def)
  done

text \<open>
  C5 (counterexample). In step1.4 an exception that is not classified as a rate limit is
  not raised to the caller of \<open>analyze_puzzle\<close>: it is returned as an error record. Here
  the first call fails with a rate-limit error and is retried after one second, the second
  fails with \<open>boom\<close>, and \<open>analyze_puzzle\<close> returns the record of that error.
\<close>

theorem C5_verify_returns_unclassified_exception:
  "analyze_puzzle_try flaky_env \<lparr>ident = Some 1, entries = [(''image'', JStr ''a.png'')]\<rparr> 2
     = Inl ''boom''
   \<and> \<not> str_contains ''rate_limit_error'' ''boom''
   \<and> analyze_puzzle flaky_env \<lparr>ident = Some 1, entries = [(''image'', JStr ''a.png'')]\<rparr>
     = (Inr \<lparr>ident = Some 1, entries = [(''error'', JStr ''boom'')]\<rparr>, [1])"
  by (simp add: flaky_analyze)
    (simp add: analyze_puzzle_try_def flaky_env_def encode_image_def str_contains_def Let_def)

text \<open>
  C5 (amended). The remote call of step1.2 and \<open>analyze_puzzle\<close> of step1.4 are executed
  at most 8 times; the result is the outcome of the last execution. An execution is
  followed by another one exactly when it failed with an exception classified as a rate
  limit by its text (lower-cased in step1.2, as it is in step1.4), it was not the eighth,
  and fewer than 300 seconds had elapsed. The sleep before the next execution is at most
  \<open>2 ^ (n - 1)\<close> seconds after the \<open>n\<close>-th failure in step1.2, where the default full
  jitter draws it, and exactly that in step1.4, in both cut to what is left of the 300
  seconds. An exception that is not so classified ends the executions at once: in step1.2
  \<open>translate_with_retry\<close> raises it to its caller, in step1.4 \<open>analyze_puzzle\<close> returns
  it as an error record.
\<close>

theorem C5_retry_bounded_and_classified:
  "length (snd (translate_with_retry ev prompt)) + 1 \<le> 8
   \<and> fst (translate_with_retry ev prompt)
       = messages_create ev prompt (length (snd (translate_with_retry ev prompt)) + 1)
   \<and> (\<forall>n. 1 \<le> n \<and> n \<le> length (snd (translate_with_retry ev prompt)) \<longrightarrow>
         (\<exists>e. messages_create ev prompt n = Inl e
            \<and> str_contains ''rate_limit_error'' (lower e)
            \<and> elapsed ev prompt n < 300
            \<and> snd (translate_with_retry ev prompt) ! (n - 1)
                = min (min (uniform ev prompt n) (2 ^ (n - 1))) (300 - elapsed ev prompt n)))
   \<and> (\<forall>e. messages_create ev prompt (length (snd (translate_with_retry ev prompt)) + 1) = Inl e \<longrightarrow>
         \<not> str_contains ''rate_limit_error'' (lower e)
         \<or> length (snd (translate_with_retry ev prompt)) + 1 = 8
         \<or> 300 \<le> elapsed ev prompt (length (snd (translate_with_retry ev prompt)) + 1))
   \<and> (\<forall>n e. 1 \<le> n \<and> n \<le> length (snd (translate_with_retry ev prompt)) + 1
            \<and> messages_create ev prompt n = Inl e
            \<and> \<not> str_contains ''rate_limit_error'' (lower e) \<longrightarrow>
         n = length (snd (translate_with_retry ev prompt)) + 1
         \<and> fst (translate_with_retry ev prompt) = Inl e)
   \<and> length (snd (analyze_puzzle ev item)) + 1 \<le> 8
   \<and> fst (analyze_puzzle ev item)
       = analyze_puzzle_body ev item (length (snd (analyze_puzzle ev item)) + 1)
   \<and> (\<forall>n. 1 \<le> n \<and> n \<le> length (snd (analyze_puzzle ev item)) \<longrightarrow>
         (\<exists>e. analyze_puzzle_try ev item n = Inl e \<and> str_contains ''rate_limit_error'' e
            \<and> elapsed_item ev item n < 300
            \<and> snd (analyze_puzzle ev item) ! (n - 1)
                = min (2 ^ (n - 1)) (300 - elapsed_item ev item n)))
   \<and> (\<forall>e. analyze_puzzle_try ev item (length (snd (analyze_puzzle ev item)) + 1) = Inl e
            \<and> str_contains ''rate_limit_error'' e \<longrightarrow>
         length (snd (analyze_puzzle ev item)) + 1 = 8
         \<or> 300 \<le> elapsed_item ev item (length (snd (analyze_puzzle ev item)) + 1))
   \<and> (\<forall>n e. 1 \<le> n \<and> n \<le> length (snd (analyze_puzzle ev item)) + 1
            \<and> analyze_puzzle_try ev item n = Inl e
            \<and> \<not> str_contains ''rate_limit_error'' e \<longrightarrow>
         n = length (snd (analyze_puzzle ev item)) + 1
         \<and> fst (analyze_puzzle ev item)
             = Inr \<lparr>ident = ident item, entries = [(''error'', JStr e)]\<rparr>)"
proof -
  obtain r ws where rw: "translate_with_retry ev prompt = (r, ws)"
    by (cases "translate_with_retry ev prompt")
  then have oe: "on_exception (translate_retry_config (uniform ev prompt)) (elapsed ev prompt)
      (messages_create ev prompt) 1 [] = (r, ws)"
    by (simp add: translate_with_retry_def)
  note f = on_exception_from_one [OF oe]
  note cfg = translate_config_simps
  have a1: "length ws + 1 \<le> 8" using on_exception_calls_bound [OF oe] by (simp add: cfg)
  have a2: "r = messages_create ev prompt (length ws + 1)" by (rule f(1))
  have a3: "\<forall>n. 1 \<le> n \<and> n \<le> length ws \<longrightarrow>
         (\<exists>e. messages_create ev prompt n = Inl e
            \<and> str_contains ''rate_limit_error'' (lower e)
            \<and> elapsed ev prompt n < 300
            \<and> ws ! (n - 1)
                = min (min (uniform ev prompt n) (2 ^ (n - 1))) (300 - elapsed ev prompt n))"
    using f(2) unfolding cfg by blast
  have a4: "\<forall>e. messages_create ev prompt (length ws + 1) = Inl e \<longrightarrow>
         \<not> str_contains ''rate_limit_error'' (lower e)
         \<or> length ws + 1 = 8
         \<or> 300 \<le> elapsed ev prompt (length ws + 1)"
    using f(3) a1 unfolding cfg by (meson le_antisym)
  have a5: "\<forall>n e. 1 \<le> n \<and> n \<le> length ws + 1 \<and> messages_create ev prompt n = Inl e
            \<and> \<not> str_contains ''rate_limit_error'' (lower e) \<longrightarrow>
         n = length ws + 1 \<and> r = Inl e"
  proof (intro allI impI)
    fix n e
    assume h: "1 \<le> n \<and> n \<le> length ws + 1 \<and> messages_create ev prompt n = Inl e
            \<and> \<not> str_contains ''rate_limit_error'' (lower e)"
    have "\<not> n \<le> length ws"
    proof
      assume "n \<le> length ws"
      with h a3 obtain e' where "messages_create ev prompt n = Inl e'"
        "str_contains ''rate_limit_error'' (lower e')" by blast
      with h show False by simp
    qed
    with h have "n = length ws + 1" by simp
    with h a2 show "n = length ws + 1 \<and> r = Inl e" by simp
  qed
  obtain r' ws' where rw': "analyze_puzzle ev item = (r', ws')" by (cases "analyze_puzzle ev item")
  then have oe': "on_exception analyze_retry_config (elapsed_item ev item)
      (analyze_puzzle_body ev item) 1 [] = (r', ws')"
    by (simp add: analyze_puzzle_def)
  note g = on_exception_from_one [OF oe']
  note cfg' = analyze_config_simps
  have b1: "length ws' + 1 \<le> 8" using on_exception_calls_bound [OF oe'] by (simp add: cfg')
  have b2: "r' = analyze_puzzle_body ev item (length ws' + 1)" by (rule g(1))
  have b3: "\<forall>n. 1 \<le> n \<and> n \<le> length ws' \<longrightarrow>
         (\<exists>e. analyze_puzzle_try ev item n = Inl e \<and> str_contains ''rate_limit_error'' e
            \<and> elapsed_item ev item n < 300
            \<and> ws' ! (n - 1) = min (2 ^ (n - 1)) (300 - elapsed_item ev item n))"
  proof (intro allI impI)
    fix n assume n: "1 \<le> n \<and> n \<le> length ws'"
    with g(2) obtain e where e: "analyze_puzzle_body ev item n = Inl e"
      "elapsed_item ev item n < max_time analyze_retry_config"
      "ws' ! (n - 1) = next_wait analyze_retry_config (elapsed_item ev item) n" by blast
    from e(1) have "analyze_puzzle_try ev item n = Inl e \<and> str_contains ''rate_limit_error'' e"
      by (auto simp: analyze_puzzle_body_def split: sum.splits if_splits)
    with e(2,3) show "\<exists>e. analyze_puzzle_try ev item n = Inl e \<and> str_contains ''rate_limit_error'' e
            \<and> elapsed_item ev item n < 300
            \<and> ws' ! (n - 1) = min (2 ^ (n - 1)) (300 - elapsed_item ev item n)"
      unfolding cfg' by blast
  qed
  have b4: "\<forall>e. analyze_puzzle_try ev item (length ws' + 1) = Inl e
            \<and> str_contains ''rate_limit_error'' e \<longrightarrow>
         length ws' + 1 = 8 \<or> 300 \<le> elapsed_item ev item (length ws' + 1)"
  proof (intro allI impI)
    fix e assume h: "analyze_puzzle_try ev item (length ws' + 1) = Inl e
            \<and> str_contains ''rate_limit_error'' e"
    then have "analyze_puzzle_body ev item (length ws' + 1) = Inl e"
      by (simp add: analyze_puzzle_body_def)
    with g(3) have "8 \<le> length ws' + 1 \<or> 300 \<le> elapsed_item ev item (length ws' + 1)"
      unfolding cfg' by blast
    with b1 show "length ws' + 1 = 8 \<or> 300 \<le> elapsed_item ev item (length ws' + 1)"
      by auto
  qed
  have b5: "\<forall>n e. 1 \<le> n \<and> n \<le> length ws' + 1 \<and> analyze_puzzle_try ev item n = Inl e
            \<and> \<not> str_contains ''rate_limit_error'' e \<longrightarrow>
         n = length ws' + 1
         \<and> r' = Inr \<lparr>ident = ident item, entries = [(''error'', JStr e)]\<rparr>"
  proof (intro allI impI)
    fix n e
    assume h: "1 \<le> n \<and> n \<le> length ws' + 1 \<and> analyze_puzzle_try ev item n = Inl e
            \<and> \<not> str_contains ''rate_limit_error'' e"
    have "\<not> n \<le> length ws'"
    proof
      assume "n \<le> length ws'"
      with h b3 obtain e' where "analyze_puzzle_try ev item n = Inl e'"
        "str_contains ''rate_limit_error'' e'" by blast
      with h show False by simp
    qed
    with h have n: "n = length ws' + 1" by simp
    from h have "analyze_puzzle_body ev item n
        = Inr \<lparr>ident = ident item, entries = [(''error'', JStr e)]\<rparr>"
      by (simp add: analyze_puzzle_body_def)
    with n b2 show "n = length ws' + 1
         \<and> r' = Inr \<lparr>ident = ident item, entries = [(''error'', JStr e)]\<rparr>" by simp
  qed
  from a1 a2 a3 a4 a5 b1 b2 b3 b4 b5 show ?thesis
    unfolding rw rw' fst_conv snd_conv by (intro conjI)
qed

lemma flaky_translate:
  "translate_with_retry flaky_env ''prompt'' = (Inl ''boom'', [1])"
  unfolding translate_with_retry_def
  apply (subst on_exception.simps)
  apply (subst on_exception.simps)
  apply (simp add: flaky_env_def translate_retry_config_def next_wait_def str_contains_def
      lower_def lower_char_def Let_def)
  done

text \<open>
  The provider of \<open>flaky_env\<close>: the rate-limit error of the first call is retried after
  one second, the other error of the second call ends the calls; step1.2 raises it,
  step1.4 returns its record.
\<close>

theorem C5_retry_bounded_and_classified_witness:
  "messages_create flaky_env ''prompt'' 1 = Inl ''429 rate_limit_error''
   \<and> messages_create flaky_env ''prompt'' 2 = Inl ''boom''
   \<and> \<not> str_contains ''rate_limit_error'' (lower ''boom'')
   \<and> snd (translate_with_retry flaky_env ''prompt'') = [1]
   \<and> fst (translate_with_retry flaky_env ''prompt'') = Inl ''boom''
   \<and> analyze_puzzle_try flaky_env
        \<lparr>ident = Some 1, entries = [(''image'', JStr ''a.png'')]\<rparr> 2 = Inl ''boom''
   \<and> \<not> str_contains ''rate_limit_error'' ''boom''
   \<and> snd (analyze_puzzle flaky_env \<lparr>ident = Some 1, entries = [(''image'', JStr ''a.png'')]\<rparr>)
       = [1]
   \<and> fst (analyze_puzzle flaky_env \<lparr>ident = Some 1, entries = [(''image'', JStr ''a.png'')]\<rparr>)
       = Inr \<lparr>ident = Some 1, entries = [(''error'', JStr ''boom'')]\<rparr>"
proof -
  let ?item = "\<lparr>ident = Some 1, entries = [(''image'', JStr ''a.png'')]\<rparr>"
  have l: "snd (translate_with_retry flaky_env ''prompt'') = [1]"
    by (simp add: flaky_translate)
  have c1: "messages_create flaky_env ''prompt'' 1 = Inl ''429 rate_limit_error''"
    by (simp add: flaky_env_def)
  have c2: "messages_create flaky_env ''prompt'' 2 = Inl ''boom''"
    by (simp add: flaky_env_def)
  have r2: "\<not> str_contains ''rate_limit_error'' (lower ''boom'')"
    by (simp add: str_contains_def lower_def lower_char_def)
  have l': "snd (analyze_puzzle flaky_env ?item) = [1]"
    by (simp add: flaky_analyze)
  have d2: "analyze_puzzle_try flaky_env ?item 2 = Inl ''boom''"
    by (simp add: analyze_puzzle_try_def flaky_env_def encode_image_def Let_def)
  have r3: "\<not> str_contains ''rate_limit_error'' ''boom''"
    by (simp add: str_contains_def)
  note t = C5_retry_bounded_and_classified [of flaky_env "''prompt''" ?item]
  from t have "\<forall>n e. 1 \<le> n \<and> n \<le> length (snd (translate_with_retry flaky_env ''prompt'')) + 1
            \<and> messages_create flaky_env ''prompt'' n = Inl e
            \<and> \<not> str_contains ''rate_limit_error'' (lower e) \<longrightarrow>
         n = length (snd (translate_with_retry flaky_env ''prompt'')) + 1
         \<and> fst (translate_with_retry flaky_env ''prompt'') = Inl e"
    by blast
  then have "1 \<le> (2::nat) \<and> 2 \<le> length (snd (translate_with_retry flaky_env ''prompt'')) + 1
            \<and> messages_create flaky_env ''prompt'' 2 = Inl ''boom''
            \<and> \<not> str_contains ''rate_limit_error'' (lower ''boom'') \<longrightarrow>
         fst (translate_with_retry flaky_env ''prompt'') = Inl ''boom''"
    by blast
  with l c2 r2 have a: "fst (translate_with_retry flaky_env ''prompt'') = Inl ''boom''"
    by simp
  from t have "\<forall>n e. 1 \<le> n \<and> n \<le> length (snd (analyze_puzzle flaky_env ?item)) + 1
            \<and> analyze_puzzle_try flaky_env ?item n = Inl e
            \<and> \<not> str_contains ''rate_limit_error'' e \<longrightarrow>
         n = length (snd (analyze_puzzle flaky_env ?item)) + 1
         \<and> fst (analyze_puzzle flaky_env ?item)
             = Inr \<lparr>ident = ident ?item, entries = [(''error'', JStr e)]\<rparr>"
    by blast
  then have "1 \<le> (2::nat) \<and> 2 \<le> length (snd (analyze_puzzle flaky_env ?item)) + 1
            \<and> analyze_puzzle_try flaky_env ?item 2 = Inl ''boom''
            \<and> \<not> str_contains ''rate_limit_error'' ''boom'' \<longrightarrow>
         fst (analyze_puzzle flaky_env ?item)
             = Inr \<lparr>ident = ident ?item, entries = [(''error'', JStr ''boom'')]\<rparr>"
    by blast
  with l' d2 r3 have b: "fst (analyze_puzzle flaky_env ?item)
       = Inr \<lparr>ident = Some 1, entries = [(''error'', JStr ''boom'')]\<rparr>"
    by simp
  from c1 c2 r2 l a d2 r3 l' b show ?thesis by (intro conjI)
qed

lemma on_exception_always_raising:
  assumes "\<And>n. target n = Inl e" "\<not> giveup cfg e" "\<And>n. clock n < max_time cfg" "1 \<le> max_tries cfg"
  shows "fst (on_exception cfg clock target 1 []) = Inl e"
    and "length (snd (on_exception cfg clock target 1 [])) + 1 = max_tries cfg"
proof -
  obtain r ws where rw: "on_exception cfg clock target 1 [] = (r, ws)"
    by (cases "on_exception cfg clock target 1 []")
  from on_exception_from_one(1) [OF rw] assms(1) have r: "r = Inl e" by simp
  from on_exception_from_one(3) [OF rw] assms(1,2,3)
  have ge: "max_tries cfg \<le> length ws + 1" by (metis not_le)
  have "length ws + 1 \<le> max_tries cfg"
  proof (cases "length ws")
    case 0
    with assms(4) show ?thesis by simp
  next
    case (Suc m)
    with on_exception_from_one(2) [OF rw] have "length ws < max_tries cfg" by auto
    then show ?thesis by simp
  qed
  with ge have "length ws + 1 = max_tries cfg" by simp
  with r rw show "fst (on_exception cfg clock target 1 []) = Inl e"
    and "length (snd (on_exception cfg clock target 1 [])) + 1 = max_tries cfg" by simp_all
qed

lemma rate_limited_body:
  "analyze_puzzle_body rate_limited_env \<lparr>ident = Some 1, entries = [(''image'', JStr ''a.png'')]\<rparr> n
     = Inl ''rate_limit_error''"
  by (simp add: analyze_puzzle_body_def analyze_puzzle_try_def rate_limited_env_def
      encode_image_def str_contains_def Let_def)

lemma rate_limited_analyze:
  "fst (analyze_puzzle rate_limited_env \<lparr>ident = Some 1, entries = [(''image'', JStr ''a.png'')]\<rparr>)
     = Inl ''rate_limit_error''"
  "length (snd (analyze_puzzle rate_limited_env
       \<lparr>ident = Some 1, entries = [(''image'', JStr ''a.png'')]\<rparr>)) + 1 = 8"
proof -
  let ?item = "\<lparr>ident = Some 1, entries = [(''image'', JStr ''a.png'')]\<rparr>"
  have h1: "\<And>n. analyze_puzzle_body rate_limited_env ?item n = Inl ''rate_limit_error''"
    by (rule rate_limited_body)
  have h2: "\<not> giveup analyze_retry_config ''rate_limit_error''"
    by (simp add: analyze_retry_config_def)
  have h3: "\<And>n. elapsed_item rate_limited_env ?item n < max_time analyze_retry_config"
    by (simp add: analyze_retry_config_def rate_limited_env_def)
  have m: "max_tries analyze_retry_config = 8"
    by (simp add: analyze_retry_config_def)
  then have h4: "1 \<le> max_tries analyze_retry_config" by simp
  from on_exception_always_raising(1) [of "analyze_puzzle_body rate_limited_env ?item",
      OF h1 h2 h3 h4]
  show "fst (analyze_puzzle rate_limited_env ?item) = Inl ''rate_limit_error''"
    unfolding analyze_puzzle_def .
  from on_exception_always_raising(2) [of "analyze_puzzle_body rate_limited_env ?item",
      OF h1 h2 h3 h4]
  show "length (snd (analyze_puzzle rate_limited_env ?item)) + 1 = 8"
    unfolding analyze_puzzle_def m .
qed

text \<open>
  C6 (the code at the failing input). An item with an image, every call of the provider
  failing with a rate-limit error: the eighth execution of \<open>analyze_puzzle\<close> raises the
  error again and the decorator gives up, so \<open>analyze_puzzle\<close> raises instead of returning
  an error record, the worker raises, and \<open>process_batch\<close> is left by the exception before
  its final save.
\<close>

theorem C6_retry_exhaustion_leaves_analyze_puzzle:
  "fst (analyze_puzzle rate_limited_env \<lparr>ident = Some 1, entries = [(''image'', JStr ''a.png'')]\<rparr>)
     = Inl ''rate_limit_error''
   \<and> length (snd (analyze_puzzle rate_limited_env
         \<lparr>ident = Some 1, entries = [(''image'', JStr ''a.png'')]\<rparr>)) + 1 = 8
   \<and> worker rate_limited_env 100 out_json
         \<lparr>ident = Some 1, entries = [(''image'', JStr ''a.png'')]\<rparr> (new_state empty_fs)
       = Raises ''rate_limit_error''
   \<and> LogicPuzzleSolver_process_batch rate_limited_env
         [\<lparr>ident = Some 1, entries = [(''image'', JStr ''a.png'')]\<rparr>] 100 out_json
         [\<lparr>ident = Some 1, entries = [(''image'', JStr ''a.png'')]\<rparr>] (new_state empty_fs)
       = Raises ''rate_limit_error''"
proof -
  have w: "worker rate_limited_env 100 out_json
         \<lparr>ident = Some 1, entries = [(''image'', JStr ''a.png'')]\<rparr> (new_state empty_fs)
       = Raises ''rate_limit_error''"
    by (simp add: worker_def rate_limited_analyze(1))
  have p: "LogicPuzzleSolver_process_batch rate_limited_env
         [\<lparr>ident = Some 1, entries = [(''image'', JStr ''a.png'')]\<rparr>] 100 out_json
         [\<lparr>ident = Some 1, entries = [(''image'', JStr ''a.png'')]\<rparr>] (new_state empty_fs)
       = Raises ''rate_limit_error''"
    by (simp add: LogicPuzzleSolver_process_batch_def Let_def load_def new_state_def empty_fs_def
        items_to_process_verify_def contains_def and_then_def
        w [unfolded new_state_def empty_fs_def])
  from rate_limited_analyze w p show ?thesis by (intro conjI)
qed

section \<open>Properties of the checkpoint store\<close>

lemma wf_results_empty: "wf_results []"
  by (simp add: wf_results_def)

lemma wf_results_setitem:
  assumes "wf_results res" "ident r = k"
  shows "wf_results (setitem res k r)"
proof -
  from assms(1) have d: "distinct (map fst res)" by (simp add: wf_results_def)
  have d': "distinct (map fst (AList.update k r res))" using d by (rule distinct_update)
  have "\<forall>(k', r') \<in> set (AList.update k r res). ident r' = k'"
  proof (clarify)
    fix k' r' assume "(k', r') \<in> set (AList.update k r res)"
    with d' have "map_of (AList.update k r res) k' = Some r'" by (rule map_of_is_SomeI)
    then have "((map_of res)(k \<mapsto> r)) k' = Some r'" by (simp add: update_conv')
    then show "ident r' = k'"
    proof (cases "k' = k")
      case True
      with \<open>((map_of res)(k \<mapsto> r)) k' = Some r'\<close> assms(2) show ?thesis by simp
    next
      case False
      with \<open>((map_of res)(k \<mapsto> r)) k' = Some r'\<close> have "map_of res k' = Some r'" by simp
      then have "(k', r') \<in> set res" by (rule map_of_SomeD)
      with assms(1) show ?thesis by (auto simp: wf_results_def)
    qed
  qed
  with d' show ?thesis by (simp add: wf_results_def setitem_def)
qed

lemma wf_results_load_records:
  "wf_results res \<Longrightarrow> wf_results (load_records recs res)"
  unfolding load_records_def
  by (induction recs arbitrary: res) (auto intro: wf_results_setitem)

lemma wf_results_load: "wf_results res \<Longrightarrow> wf_results (load f p res)"
  by (auto simp: load_def wf_results_load_records split: option.splits content.splits)

lemma wf_results_load_batch: "wf_results res \<Longrightarrow> wf_results (load_batch f p res)"
  by (auto simp: load_batch_def wf_results_load_records split: option.splits content.splits)

lemma set_sorted_results:
  "set (sorted_results res) = {r \<in> set (values_of res). ident r \<noteq> None}"
  by (auto simp: sorted_results_def)

lemma sorted_sorted_results:
  "sorted (map (\<lambda>x. the (ident x)) (sorted_results res))"
  by (simp add: sorted_results_def)

lemma wf_results_distinct_values:
  assumes "wf_results res"
  shows "distinct (map ident (values_of res))"
proof -
  from assms have "map ident (values_of res) = map fst res"
    by (auto simp: wf_results_def values_of_def)
  with assms show ?thesis by (simp add: wf_results_def)
qed

lemma distinct_sorted_results:
  assumes "wf_results res"
  shows "distinct (map (\<lambda>x. the (ident x)) (sorted_results res))"
proof -
  let ?xs = "[r \<leftarrow> values_of res. ident r \<noteq> None]"
  from wf_results_distinct_values [OF assms] have d: "distinct (map ident ?xs)"
    by (rule distinct_map_filter)
  then have dx: "distinct ?xs" and inj: "inj_on ident (set ?xs)"
    by (simp_all add: distinct_map)
  have "inj_on (\<lambda>x. the (ident x)) (set ?xs)"
  proof (rule inj_onI)
    fix x y assume "x \<in> set ?xs" "y \<in> set ?xs" "the (ident x) = the (ident y)"
    then have "ident x = ident y" by auto
    with inj \<open>x \<in> set ?xs\<close> \<open>y \<in> set ?xs\<close> show "x = y" by (meson inj_onD)
  qed
  with dx show ?thesis by (simp add: sorted_results_def distinct_map)
qed

lemma strictly_sorted_results:
  "wf_results res \<Longrightarrow> sorted_wrt (<) (map (\<lambda>x. the (ident x)) (sorted_results res))"
  using sorted_sorted_results distinct_sorted_results by (simp add: strict_sorted_iff)

lemma record_in_sorted_results:
  assumes "wf_results res"
  shows "(map_of res (Some i) = Some r) = (r \<in> set (sorted_results res) \<and> ident r = Some i)"
proof
  assume m: "map_of res (Some i) = Some r"
  then have "(Some i, r) \<in> set res" by (rule map_of_SomeD)
  with assms have "ident r = Some i" and "r \<in> set (values_of res)"
    by (auto simp: wf_results_def values_of_def intro: rev_image_eqI)
  then show "r \<in> set (sorted_results res) \<and> ident r = Some i"
    by (simp add: set_sorted_results)
next
  assume "r \<in> set (sorted_results res) \<and> ident r = Some i"
  then have "r \<in> set (values_of res)" and i: "ident r = Some i"
    by (simp_all add: set_sorted_results)
  then obtain k where k: "(k, r) \<in> set res" by (auto simp: values_of_def)
  with assms i have "k = Some i" by (auto simp: wf_results_def)
  with k assms show "map_of res (Some i) = Some r"
    by (auto simp: wf_results_def intro: map_of_is_SomeI)
qed

lemma LogicPuzzleSolver_save_unlocked:
  "\<not> lock s \<Longrightarrow>
   LogicPuzzleSolver_save p s =
     Returns (s\<lparr>fs := \<lparr>dirs = insert (parent p) (dirs (fs s)),
                        files = (files (fs s))(p \<mapsto> Json (sorted_results (results s)))\<rparr>\<rparr>)"
  by (simp add: LogicPuzzleSolver_save_def with_lock_def and_then_def mkdir_parent_def
      open_write_def Let_def)

lemma save_intermediate_unlocked:
  "\<not> lock s \<Longrightarrow> parent p \<in> dirs (fs s) \<Longrightarrow>
   save_intermediate_results_local p s =
     Returns (s\<lparr>fs := (fs s)\<lparr>files := (files (fs s))(p \<mapsto> Json (sorted_results (results s)))\<rparr>,
                processed_since_last_save := 0\<rparr>)"
  by (simp add: save_intermediate_results_local_def with_lock_def and_then_def open_write_def)

lemma save_intermediate_missing_dir:
  "\<not> lock s \<Longrightarrow> parent p \<notin> dirs (fs s) \<Longrightarrow> save_intermediate_results_local p s = Returns s"
  by (simp add: save_intermediate_results_local_def with_lock_def and_then_def open_write_def)


text \<open>
  C8 (counterexample). The save of step1.2 does not create the directory of its file: when
  the directory is missing nothing is written, the exception of \<open>open\<close> being caught, and
  the directory is still missing afterwards.
\<close>

theorem C8_rewrite_save_without_directory:
  "save_intermediate_results_local
     \<lparr>parent = ''new'', stem = ''result_intermediate'', suffix = ''.json''\<rparr>
     \<lparr>results = [(Some 1, \<lparr>ident = Some 1, entries = [(''translation'', JStr ''a'')]\<rparr>)],
      lock = False, processed_since_last_save = 1, fs = empty_fs\<rparr>
   = Returns
     \<lparr>results = [(Some 1, \<lparr>ident = Some 1, entries = [(''translation'', JStr ''a'')]\<rparr>)],
      lock = False, processed_since_last_save = 1, fs = empty_fs\<rparr>
   \<and> files empty_fs \<lparr>parent = ''new'', stem = ''result_intermediate'', suffix = ''.json''\<rparr> = None
   \<and> ''new'' \<notin> dirs empty_fs"
  by (simp add: save_intermediate_missing_dir empty_fs_def)

text \<open>
  C8 (amended). A save that finds the lock free writes, as the whole new content of the
  file, the records of the current \<open>results\<close> that have an id, sorted by id: step1.4
  after creating the directory of the file, step1.2 when that directory exists. The
  records of the dictionary being stored under their own ids, the ids of the written array
  are strictly ascending, and the array has exactly the record of each id of the
  dictionary.
\<close>

theorem C8_save_writes_sorted_snapshot:
  "(\<not> lock s \<longrightarrow>
      LogicPuzzleSolver_save p s =
        Returns (s\<lparr>fs := \<lparr>dirs = insert (parent p) (dirs (fs s)),
                           files = (files (fs s))(p \<mapsto> Json (sorted_results (results s)))\<rparr>\<rparr>))
   \<and> (\<not> lock s \<and> parent p \<in> dirs (fs s) \<longrightarrow>
      save_intermediate_results_local p s =
        Returns (s\<lparr>fs := (fs s)\<lparr>files := (files (fs s))(p \<mapsto> Json (sorted_results (results s)))\<rparr>,
                   processed_since_last_save := 0\<rparr>))
   \<and> set (sorted_results res) = {r \<in> set (values_of res). ident r \<noteq> None}
   \<and> (wf_results res \<longrightarrow>
        sorted_wrt (<) (map (\<lambda>x. the (ident x)) (sorted_results res))
        \<and> (\<forall>i r. (map_of res (Some i) = Some r)
                  = (r \<in> set (sorted_results res) \<and> ident r = Some i)))"
  using LogicPuzzleSolver_save_unlocked [of s p] save_intermediate_unlocked [of s p]
    set_sorted_results [of res] strictly_sorted_results [of res]
    record_in_sorted_results [of res]
  by blast

theorem C8_save_writes_sorted_snapshot_witness:
  "wf_results [(Some 2, \<lparr>ident = Some 2, entries = [(''error'', JStr ''e'')]\<rparr>),
               (Some 1, \<lparr>ident = Some 1, entries = [(''answer'', JStr ''A'')]\<rparr>)]
   \<and> sorted_results [(Some 2, \<lparr>ident = Some 2, entries = [(''error'', JStr ''e'')]\<rparr>),
               (Some 1, \<lparr>ident = Some 1, entries = [(''answer'', JStr ''A'')]\<rparr>)]
       = [\<lparr>ident = Some 1, entries = [(''answer'', JStr ''A'')]\<rparr>,
          \<lparr>ident = Some 2, entries = [(''error'', JStr ''e'')]\<rparr>]
   \<and> sorted_wrt (<) (map (\<lambda>x. the (ident x))
         (sorted_results [(Some 2, \<lparr>ident = Some 2, entries = [(''error'', JStr ''e'')]\<rparr>),
               (Some 1, \<lparr>ident = Some 1, entries = [(''answer'', JStr ''A'')]\<rparr>)]))
   \<and> LogicPuzzleSolver_save out_json
         \<lparr>results = [(Some 2, \<lparr>ident = Some 2, entries = [(''error'', JStr ''e'')]\<rparr>),
               (Some 1, \<lparr>ident = Some 1, entries = [(''answer'', JStr ''A'')]\<rparr>)],
          lock = False, processed_since_last_save = 0, fs = empty_fs\<rparr>
       = Returns
         \<lparr>results = [(Some 2, \<lparr>ident = Some 2, entries = [(''error'', JStr ''e'')]\<rparr>),
               (Some 1, \<lparr>ident = Some 1, entries = [(''answer'', JStr ''A'')]\<rparr>)],
          lock = False, processed_since_last_save = 0,
          fs = \<lparr>dirs = {''out''},
                files = (\<lambda>p. None)(out_json \<mapsto> Json
                  [\<lparr>ident = Some 1, entries = [(''answer'', JStr ''A'')]\<rparr>,
                   \<lparr>ident = Some 2, entries = [(''error'', JStr ''e'')]\<rparr>])\<rparr>\<rparr>"
proof -
  let ?res = "[(Some 2, \<lparr>ident = Some 2, entries = [(''error'', JStr ''e'')]\<rparr>),
               (Some 1, \<lparr>ident = Some (1::int), entries = [(''answer'', JStr ''A'')]\<rparr>)]"
  let ?s = "\<lparr>results = ?res, lock = False, processed_since_last_save = 0, fs = empty_fs\<rparr>"
  have wf: "wf_results ?res" by (simp add: wf_results_def)
  have sr: "sorted_results ?res
       = [\<lparr>ident = Some 1, entries = [(''answer'', JStr ''A'')]\<rparr>,
          \<lparr>ident = Some 2, entries = [(''error'', JStr ''e'')]\<rparr>]"
    by (simp add: sorted_results_def values_of_def)
  have nl: "\<not> lock ?s" by simp
  note t = C8_save_writes_sorted_snapshot [of ?s out_json ?res]
  from t wf have st: "sorted_wrt (<) (map (\<lambda>x. the (ident x)) (sorted_results ?res))" by blast
  from t nl have "LogicPuzzleSolver_save out_json ?s =
        Returns (?s\<lparr>fs := \<lparr>dirs = insert (parent out_json) (dirs (fs ?s)),
                           files = (files (fs ?s))(out_json \<mapsto> Json (sorted_results (results ?s)))\<rparr>\<rparr>)"
    by blast
  then have sv: "LogicPuzzleSolver_save out_json ?s = Returns
         \<lparr>results = ?res, lock = False, processed_since_last_save = 0,
          fs = \<lparr>dirs = {''out''},
                files = (\<lambda>p. None)(out_json \<mapsto> Json
                  [\<lparr>ident = Some 1, entries = [(''answer'', JStr ''A'')]\<rparr>,
                   \<lparr>ident = Some 2, entries = [(''error'', JStr ''e'')]\<rparr>])\<rparr>\<rparr>"
    by (simp add: sr empty_fs_def out_json_def)
  from wf sr st sv show ?thesis by (intro conjI)
qed

section \<open>Properties of the update of the results\<close>



text \<open>
  When the counter reaches the interval, \<open>save_intermediate_results_local\<close> is called
  while \<open>results_lock\<close> is held and acquires that lock again: the worker never returns.
\<close>

lemma store_result_at_threshold:
  "\<not> lock s \<Longrightarrow> save_interval \<le> processed_since_last_save s + 1 \<Longrightarrow>
   store_result p save_interval result s = Hangs"
  by (simp add: store_result_def with_lock_def and_then_def Let_def
      save_intermediate_results_local_def)












section \<open>Properties of a run with nothing pending\<close>

lemma intermediate_differs: "intermediate_output_file output \<noteq> output"
proof
  assume "intermediate_output_file output = output"
  then have "stem (intermediate_output_file output) = stem output" by simp
  then show False by (simp add: intermediate_output_file_def)
qed

lemma parent_intermediate: "parent (intermediate_output_file output) = parent output"
  by (simp add: intermediate_output_file_def)

lemma finalize_after_save:
  assumes "parent output \<in> dirs f" "ipath = intermediate_output_file output"
  shows "finalize_output ipath output (f\<lparr>files := (files f)(ipath \<mapsto> c)\<rparr>)
         = f\<lparr>files := ((files f)(ipath := None))(output \<mapsto> c)\<rparr>"
proof -
  from assms(2) have ne: "ipath \<noteq> output" by (simp add: intermediate_differs)
  with assms(1) show ?thesis
    by (simp add: finalize_output_def rename_def)
qed

lemma main_rewrite_nothing_pending:
  assumes "items_to_process_rewrite data (load f (intermediate_output_file output) []) = []"
    and "parent output \<in> dirs f"
  shows "main_rewrite ev output save_interval data order f =
     Returns \<lparr>results = load f (intermediate_output_file output) [], lock = False,
              processed_since_last_save = 0,
              fs = f\<lparr>files := ((files f)(intermediate_output_file output := None))
                       (output \<mapsto> Json (sorted_results
                          (load f (intermediate_output_file output) [])))\<rparr>\<rparr>"
proof -
  let ?ipath = "intermediate_output_file output"
  let ?s0 = "\<lparr>results = load f ?ipath [], lock = False, processed_since_last_save = 0, fs = f\<rparr>"
  have sv: "save_intermediate_results_local ?ipath ?s0 =
      Returns (?s0\<lparr>fs := (fs ?s0)\<lparr>files := (files (fs ?s0))(?ipath \<mapsto>
                  Json (sorted_results (results ?s0)))\<rparr>,
                 processed_since_last_save := 0\<rparr>)"
    using assms(2) by (intro save_intermediate_unlocked) (simp_all add: parent_intermediate)
  show ?thesis
    unfolding main_rewrite_def Let_def
    using assms(1) by (simp add: and_then_def sv finalize_after_save [OF assms(2) refl])
qed

lemma process_batch_nothing_pending:
  assumes "items_to_process_verify data (load (fs s) outfile (results s)) = []" "\<not> lock s"
  shows "LogicPuzzleSolver_process_batch ev data save_interval outfile order s =
     (if load (fs s) outfile (results s) \<noteq> []
      then Returns (s\<lparr>results := load (fs s) outfile (results s),
                      fs := \<lparr>dirs = insert (parent outfile) (dirs (fs s)),
                             files = (files (fs s))(outfile \<mapsto>
                               Json (sorted_results (load (fs s) outfile (results s))))\<rparr>\<rparr>)
      else Returns (s\<lparr>results := load (fs s) outfile (results s)\<rparr>))"
  using assms
  by (simp add: LogicPuzzleSolver_process_batch_def Let_def LogicPuzzleSolver_save_unlocked)

lemma batch_process_nothing_pending:
  assumes "\<forall>x \<in> set items. ident x \<noteq> None"
    and "[x \<leftarrow> items. \<not> contains (load_batch (fs s) out_path (results s)) (ident x)] = []"
  shows "batch_process mk ev self items save_interval out_path s =
     Returns (s\<lparr>results := load_batch (fs s) out_path (results s)\<rparr>)"
  using assms by (simp add: batch_process_def Let_def)


text \<open>
  C3 (counterexample). In the batch stages a run whose pending list is empty returns
  without saving. With a checkpoint file that holds the records of both input items, here
  in descending order of id, the run leaves the file as it is, while a save of the loaded
  records would write them in ascending order; with no input item and no checkpoint file
  the run creates no file.
\<close>

theorem C3_batch_returns_without_save:
  "BatchRegularityExtractor_process_batch (answering_env ''x'')
     \<lparr>client = Anthropic None, model = ''m'', batch_size = 20, max_tokens = 100,
      temperature = ()\<rparr>
     [\<lparr>ident = Some 1, entries = [(''image'', JStr ''a.png'')]\<rparr>,
      \<lparr>ident = Some 2, entries = [(''image'', JStr ''b.png'')]\<rparr>]
     20 out_json
     (new_state \<lparr>dirs = {''out''},
                 files = (\<lambda>p. None)(out_json \<mapsto> Json
                   [\<lparr>ident = Some 2, entries = [(''error'', JStr ''e'')]\<rparr>,
                    \<lparr>ident = Some 1, entries = [(''raw_response'', JStr ''r'')]\<rparr>])\<rparr>)
   = Returns
     \<lparr>results = [(Some 2, \<lparr>ident = Some 2, entries = [(''error'', JStr ''e'')]\<rparr>),
                 (Some 1, \<lparr>ident = Some 1, entries = [(''raw_response'', JStr ''r'')]\<rparr>)],
      lock = False, processed_since_last_save = 0,
      fs = \<lparr>dirs = {''out''},
            files = (\<lambda>p. None)(out_json \<mapsto> Json
              [\<lparr>ident = Some 2, entries = [(''error'', JStr ''e'')]\<rparr>,
               \<lparr>ident = Some 1, entries = [(''raw_response'', JStr ''r'')]\<rparr>])\<rparr>\<rparr>
   \<and> sorted_results
       [(Some 2, \<lparr>ident = Some 2, entries = [(''error'', JStr ''e'')]\<rparr>),
        (Some 1, \<lparr>ident = Some 1, entries = [(''raw_response'', JStr ''r'')]\<rparr>)]
     = [\<lparr>ident = Some 1, entries = [(''raw_response'', JStr ''r'')]\<rparr>,
        \<lparr>ident = Some 2, entries = [(''error'', JStr ''e'')]\<rparr>]
   \<and> PuzzleClassifier_process (answering_env ''x'')
     \<lparr>client = Anthropic None, model = ''m'', batch_size = 20, max_tokens = 100,
      temperature = ()\<rparr>
     [] 5 out_json (new_state empty_fs)
   = Returns (new_state empty_fs)
   \<and> files (fs (new_state empty_fs)) out_json = None"
  by (simp add: BatchRegularityExtractor_process_batch_def PuzzleClassifier_process_def
      batch_process_def Let_def new_state_def load_batch_def load_records_def setitem_def
      contains_def sorted_results_def values_of_def empty_fs_def)

text \<open>
  C3 (amended). When the pending list is empty no work is dispatched, whatever the
  provider would answer. Step1.2 then performs its final save of the loaded records and
  renames the intermediate file to the output path; step1.4 performs its final save when
  records were loaded, and writes nothing when none was; the batch stages return without
  a save, so the output file stays as it was.
\<close>

theorem C3_nothing_pending:
  "(items_to_process_rewrite data (load f (intermediate_output_file output) []) = []
      \<and> parent output \<in> dirs f \<longrightarrow>
    main_rewrite ev output save_interval data order f =
      Returns \<lparr>results = load f (intermediate_output_file output) [], lock = False,
               processed_since_last_save = 0,
               fs = f\<lparr>files := ((files f)(intermediate_output_file output := None))
                        (output \<mapsto> Json (sorted_results
                           (load f (intermediate_output_file output) [])))\<rparr>\<rparr>)
   \<and> (items_to_process_verify data (load (fs s) output (results s)) = [] \<and> \<not> lock s \<longrightarrow>
    LogicPuzzleSolver_process_batch ev data save_interval output order s =
      (if load (fs s) output (results s) \<noteq> []
       then Returns (s\<lparr>results := load (fs s) output (results s),
                       fs := \<lparr>dirs = insert (parent output) (dirs (fs s)),
                              files = (files (fs s))(output \<mapsto>
                                Json (sorted_results (load (fs s) output (results s))))\<rparr>\<rparr>)
       else Returns (s\<lparr>results := load (fs s) output (results s)\<rparr>)))
   \<and> ((\<forall>x \<in> set data. ident x \<noteq> None)
      \<and> [x \<leftarrow> data. \<not> contains (load_batch (fs s) output (results s)) (ident x)] = [] \<longrightarrow>
    BatchRegularityExtractor_process_batch ev self data save_interval output s =
      Returns (s\<lparr>results := load_batch (fs s) output (results s)\<rparr>)
    \<and> PuzzleClassifier_process ev self data save_interval output s =
      Returns (s\<lparr>results := load_batch (fs s) output (results s)\<rparr>))"
  using main_rewrite_nothing_pending [of data f "output" ev save_interval order]
    process_batch_nothing_pending [of data s "output" ev save_interval order]
    batch_process_nothing_pending [of data s "output" extractor_record ev self save_interval]
    batch_process_nothing_pending [of data s "output" classifier_record ev self save_interval]
  unfolding BatchRegularityExtractor_process_batch_def PuzzleClassifier_process_def
  by blast


text \<open>
  The three cases at a checkpoint that holds the record of the only input item, with a
  provider that would fail every call.
\<close>

theorem C3_nothing_pending_witness:
  "items_to_process_rewrite [\<lparr>ident = Some 1, entries = [(''explanation'', JStr ''x'')]\<rparr>]
     (load \<lparr>dirs = {''out''},
            files = (\<lambda>p. None)(intermediate_output_file out_json \<mapsto> Json
              [\<lparr>ident = Some 1, entries = [(''translation'', JStr ''t'')]\<rparr>])\<rparr>
        (intermediate_output_file out_json) []) = []
   \<and> main_rewrite rate_limited_env out_json 100
       [\<lparr>ident = Some 1, entries = [(''explanation'', JStr ''x'')]\<rparr>] []
       \<lparr>dirs = {''out''},
        files = (\<lambda>p. None)(intermediate_output_file out_json \<mapsto> Json
          [\<lparr>ident = Some 1, entries = [(''translation'', JStr ''t'')]\<rparr>])\<rparr>
     = Returns
       \<lparr>results = [(Some 1, \<lparr>ident = Some 1, entries = [(''translation'', JStr ''t'')]\<rparr>)],
        lock = False, processed_since_last_save = 0,
        fs = \<lparr>dirs = {''out''},
              files = (\<lambda>p. None)(intermediate_output_file out_json := None,
                out_json \<mapsto> Json
                  [\<lparr>ident = Some 1, entries = [(''translation'', JStr ''t'')]\<rparr>])\<rparr>\<rparr>
   \<and> LogicPuzzleSolver_process_batch rate_limited_env
       [\<lparr>ident = Some 1, entries = [(''image'', JStr ''a.png'')]\<rparr>] 100 out_json []
       (new_state \<lparr>dirs = {},
                   files = (\<lambda>p. None)(out_json \<mapsto> Json
                     [\<lparr>ident = Some 1, entries = [(''answer'', JStr ''A'')]\<rparr>])\<rparr>)
     = Returns
       \<lparr>results = [(Some 1, \<lparr>ident = Some 1, entries = [(''answer'', JStr ''A'')]\<rparr>)],
        lock = False, processed_since_last_save = 0,
        fs = \<lparr>dirs = {''out''},
              files = (\<lambda>p. None)(out_json \<mapsto> Json
                [\<lparr>ident = Some 1, entries = [(''answer'', JStr ''A'')]\<rparr>])\<rparr>\<rparr>
   \<and> BatchRegularityExtractor_process_batch rate_limited_env
       \<lparr>client = Anthropic None, model = ''m'', batch_size = 20, max_tokens = 100,
        temperature = ()\<rparr>
       [\<lparr>ident = Some 1, entries = [(''image'', JStr ''a.png'')]\<rparr>] 20 out_json
       (new_state \<lparr>dirs = {''out''},
                   files = (\<lambda>p. None)(out_json \<mapsto> Json
                     [\<lparr>ident = Some 1, entries = [(''error'', JStr ''e'')]\<rparr>])\<rparr>)
     = Returns
       \<lparr>results = [(Some 1, \<lparr>ident = Some 1, entries = [(''error'', JStr ''e'')]\<rparr>)],
        lock = False, processed_since_last_save = 0,
        fs = \<lparr>dirs = {''out''},
              files = (\<lambda>p. None)(out_json \<mapsto> Json
                [\<lparr>ident = Some 1, entries = [(''error'', JStr ''e'')]\<rparr>])\<rparr>\<rparr>"
proof -
  let ?tr = "\<lparr>ident = Some (1::int), entries = [(''translation'', JStr ''t'')]\<rparr>"
  let ?an = "\<lparr>ident = Some (1::int), entries = [(''answer'', JStr ''A'')]\<rparr>"
  let ?er = "\<lparr>ident = Some (1::int), entries = [(''error'', JStr ''e'')]\<rparr>"
  let ?d2 = "[\<lparr>ident = Some (1::int), entries = [(''explanation'', JStr ''x'')]\<rparr>]"
  let ?d4 = "[\<lparr>ident = Some (1::int), entries = [(''image'', JStr ''a.png'')]\<rparr>]"
  let ?f2 = "\<lparr>dirs = {''out''},
        files = (\<lambda>p. None)(intermediate_output_file out_json \<mapsto> Json [?tr])\<rparr>"
  let ?s4 = "new_state \<lparr>dirs = {}, files = (\<lambda>p. None)(out_json \<mapsto> Json [?an])\<rparr>"
  let ?s6 = "new_state \<lparr>dirs = {''out''}, files = (\<lambda>p. None)(out_json \<mapsto> Json [?er])\<rparr>"
  let ?self = "\<lparr>client = Anthropic None, model = ''m'', batch_size = 20, max_tokens = 100,
        temperature = ()\<rparr>"
  have l2: "load ?f2 (intermediate_output_file out_json) [] = [(Some 1, ?tr)]"
    by (simp add: load_def load_records_def setitem_def)
  have h2: "items_to_process_rewrite ?d2 (load ?f2 (intermediate_output_file out_json) []) = []"
    unfolding l2 by (simp add: items_to_process_rewrite_def already_done_rewrite_def has_key_def)
  have p2: "parent out_json \<in> dirs ?f2" by (simp add: out_json_def)
  have l4: "load (fs ?s4) out_json (results ?s4) = [(Some 1, ?an)]"
    by (simp add: new_state_def load_def load_records_def setitem_def)
  have h4: "items_to_process_verify ?d4 (load (fs ?s4) out_json (results ?s4)) = [] \<and> \<not> lock ?s4"
    unfolding l4 by (simp add: items_to_process_verify_def contains_def new_state_def)
  have l6: "load_batch (fs ?s6) out_json (results ?s6) = [(Some 1, ?er)]"
    by (simp add: new_state_def load_batch_def load_records_def setitem_def)
  have h6: "(\<forall>x \<in> set ?d4. ident x \<noteq> None)
      \<and> [x \<leftarrow> ?d4. \<not> contains (load_batch (fs ?s6) out_json (results ?s6)) (ident x)] = []"
    unfolding l6 by (simp add: contains_def)
  note t2 = C3_nothing_pending [of ?d2 ?f2 out_json rate_limited_env 100 "[]"]
  note t4 = C3_nothing_pending [of ?d4 ?f2 out_json rate_limited_env 100 "[]" ?s4]
  note t6 = C3_nothing_pending [of ?d4 ?f2 out_json rate_limited_env 20 "[]" ?s6 ?self]
  from t2 h2 p2 have "main_rewrite rate_limited_env out_json 100 ?d2 [] ?f2 =
      Returns \<lparr>results = load ?f2 (intermediate_output_file out_json) [], lock = False,
               processed_since_last_save = 0,
               fs = ?f2\<lparr>files := ((files ?f2)(intermediate_output_file out_json := None))
                        (out_json \<mapsto> Json (sorted_results
                           (load ?f2 (intermediate_output_file out_json) [])))\<rparr>\<rparr>"
    by blast
  then have a: "main_rewrite rate_limited_env out_json 100 ?d2 [] ?f2 =
      Returns \<lparr>results = [(Some 1, ?tr)], lock = False, processed_since_last_save = 0,
        fs = \<lparr>dirs = {''out''},
              files = (\<lambda>p. None)(intermediate_output_file out_json := None,
                out_json \<mapsto> Json [?tr])\<rparr>\<rparr>"
    unfolding l2 by (simp add: sorted_results_def values_of_def)
  from t4 h4 have "LogicPuzzleSolver_process_batch rate_limited_env ?d4 100 out_json [] ?s4 =
      (if load (fs ?s4) out_json (results ?s4) \<noteq> []
       then Returns (?s4\<lparr>results := load (fs ?s4) out_json (results ?s4),
                       fs := \<lparr>dirs = insert (parent out_json) (dirs (fs ?s4)),
                              files = (files (fs ?s4))(out_json \<mapsto>
                                Json (sorted_results (load (fs ?s4) out_json (results ?s4))))\<rparr>\<rparr>)
       else Returns (?s4\<lparr>results := load (fs ?s4) out_json (results ?s4)\<rparr>))"
    by blast
  then have b: "LogicPuzzleSolver_process_batch rate_limited_env ?d4 100 out_json [] ?s4 =
      Returns \<lparr>results = [(Some 1, ?an)], lock = False, processed_since_last_save = 0,
        fs = \<lparr>dirs = {''out''}, files = (\<lambda>p. None)(out_json \<mapsto> Json [?an])\<rparr>\<rparr>"
    unfolding l4 by (simp add: new_state_def sorted_results_def values_of_def out_json_def)
  from t6 h6 have "BatchRegularityExtractor_process_batch rate_limited_env ?self ?d4 20 out_json ?s6
      = Returns (?s6\<lparr>results := load_batch (fs ?s6) out_json (results ?s6)\<rparr>)"
    by blast
  then have c: "BatchRegularityExtractor_process_batch rate_limited_env ?self ?d4 20 out_json ?s6
      = Returns \<lparr>results = [(Some 1, ?er)], lock = False, processed_since_last_save = 0,
        fs = \<lparr>dirs = {''out''}, files = (\<lambda>p. None)(out_json \<mapsto> Json [?er])\<rparr>\<rparr>"
    unfolding l6 by (simp add: new_state_def)
  from h2 a b c show ?thesis by (intro conjI)
qed

section \<open>Properties of the constructors of the batch stages\<close>

text \<open>
  C10. The constructors of the batch stages do not use their \<open>api_key\<close> argument: their
  result is the same for every value of it, and the client of a constructed object holds
  the configured key \<open>Anthropic_API_KEY\<close>.
\<close>

theorem C10_api_key_ignored:
  "BatchRegularityExtractor_init Anthropic_API_KEY is_file exists api_key template_path
       example_image_path m b mt t
     = BatchRegularityExtractor_init Anthropic_API_KEY is_file exists api_key' template_path
       example_image_path m b mt t
   \<and> (BatchRegularityExtractor_init Anthropic_API_KEY is_file exists api_key template_path
       example_image_path m b mt t = Inr self \<longrightarrow> client self = Anthropic Anthropic_API_KEY)
   \<and> PuzzleClassifier_init Anthropic_API_KEY is_file api_key template_path m b mt t
     = PuzzleClassifier_init Anthropic_API_KEY is_file api_key' template_path m b mt t
   \<and> (PuzzleClassifier_init Anthropic_API_KEY is_file api_key template_path m b mt t = Inr self'
       \<longrightarrow> client self' = Anthropic Anthropic_API_KEY)"
  by (auto simp: BatchRegularityExtractor_init_def PuzzleClassifier_init_def Let_def
      split: if_splits)

theorem C10_api_key_ignored_witness:
  "BatchRegularityExtractor_init (Some ''configured'') (\<lambda>p. True) (\<lambda>p. True) (Some ''given'')
       ''t.md'' ''e.png'' ''m'' 20 100 (1::nat)
     = Inr \<lparr>client = Anthropic (Some ''configured''), model = ''m'', batch_size = 20,
            max_tokens = 100, temperature = 1\<rparr>
   \<and> client \<lparr>client = Anthropic (Some ''configured''), model = ''m'', batch_size = 20,
            max_tokens = 100, temperature = (1::nat)\<rparr> = Anthropic (Some ''configured'')
   \<and> PuzzleClassifier_init (Some ''configured'') (\<lambda>p. True) None ''t.md'' ''m'' 20 100 (1::nat)
     = Inr \<lparr>client = Anthropic (Some ''configured''), model = ''m'', batch_size = 20,
            max_tokens = 100, temperature = 1\<rparr>"
  using C10_api_key_ignored [of "Some ''configured''" "\<lambda>p. True" "\<lambda>p. True" "Some ''given''"
      "''t.md''" "''e.png''" "''m''" 20 100 "1::nat" None
      "\<lparr>client = Anthropic (Some ''configured''), model = ''m'', batch_size = 20,
            max_tokens = 100, temperature = 1\<rparr>"]
  by (simp add: BatchRegularityExtractor_init_def PuzzleClassifier_init_def)

end
